theory Spec2Isabelle
  imports Complex_Main "HOL-Library.AList"
begin

section \<open>The HTTP bridge of xcode-mcp-bridge\<close>

text \<open>
  The repository holds two variants of \<^verbatim>\<open>startMcpBridge\<close>: the one of
  \<^verbatim>\<open>src/src/xcode-mcp.ts\<close> (options host, port, path) and the one with the
  \<^verbatim>\<open>saveEndpoint\<close> option (the second unit of \<^verbatim>\<open>src/xcode-types.ts\<close>).
  Their request handlers are the same text; they differ in how a failed backend
  connection is reported, in the \<^verbatim>\<open>onclose\<close> callback and in \<^verbatim>\<open>cleanup\<close>.
\<close>

datatype variant = Plain | Saving

subsection \<open>Values of the runtime\<close>

text \<open>
  A JavaScript number is a double: a finite value, NaN or an infinity. The finite
  values are modelled as reals (every double is one).
\<close>

datatype number = Finite real | NaN | PosInfinity | NegInfinity

text \<open>A thrown value: an \<^verbatim>\<open>Error\<close> with its message, or anything else with its
  \<^verbatim>\<open>String(error)\<close> rendering.\<close>

datatype thrown = ErrorObject string | NonError string

fun message_of :: "thrown \<Rightarrow> string" where
  "message_of (ErrorObject m) = m"
| "message_of (NonError s) = s"

datatype json =
    JNull
  | JBool bool
  | JNumber real
  | JString string
  | JArray "json list"
  | JObject "(string \<times> json) list"

text \<open>What \<^verbatim>\<open>res.end\<close> is given: a plain string, or \<^verbatim>\<open>JSON.stringify\<close> of a value.\<close>

datatype payload = Text string | Json json

record response =
  statusCode :: nat
  content_type :: "string option"
  payload :: payload

subsection \<open>Port validation\<close>

definition isInteger :: "number \<Rightarrow> bool" where
  "isInteger n = (case n of Finite r \<Rightarrow> of_int (floor r) = r | _ \<Rightarrow> False)"

definition less_number :: "number \<Rightarrow> real \<Rightarrow> bool" where
  "less_number n c = (case n of Finite r \<Rightarrow> r < c | NegInfinity \<Rightarrow> True | _ \<Rightarrow> False)"

definition greater_number :: "number \<Rightarrow> real \<Rightarrow> bool" where
  "greater_number n c = (case n of Finite r \<Rightarrow> c < r | PosInfinity \<Rightarrow> True | _ \<Rightarrow> False)"

text \<open>The guard of the first statement of \<^verbatim>\<open>startMcpBridge\<close>, in both variants.\<close>

definition invalid_port :: "number \<Rightarrow> bool" where
  "invalid_port port =
     (\<not> isInteger port \<or> less_number port 1 \<or> greater_number port 65535)"

subsection \<open>Strings\<close>

definition startsWith_slash :: "string \<Rightarrow> bool" where
  "startsWith_slash v = (case v of [] \<Rightarrow> False | c # _ \<Rightarrow> c = CHR ''/'')"

definition normalizePath :: "string \<Rightarrow> string" where
  "normalizePath v = (if \<not> startsWith_slash v then CHR ''/'' # v else v)"

text \<open>\<^verbatim>\<open>toUpperCase\<close> on the letters a to z; a request method is an ASCII token.\<close>

definition upper_char :: "char \<Rightarrow> char" where
  "upper_char c =
     (case map_of (zip ''abcdefghijklmnopqrstuvwxyz'' ''ABCDEFGHIJKLMNOPQRSTUVWXYZ'') c of
        Some u \<Rightarrow> u
      | None \<Rightarrow> c)"

definition toUpperCase :: "string \<Rightarrow> string" where
  "toUpperCase s = map upper_char s"

text \<open>White space removed by \<^verbatim>\<open>trim\<close>, among the characters below 256: tab, line
  feed, vertical tab, form feed, carriage return, space and no-break space.\<close>

definition is_space :: "char \<Rightarrow> bool" where
  "is_space c = ((of_char c :: nat) \<in> {9, 10, 11, 12, 13, 32, 160})"

definition trim :: "string \<Rightarrow> string" where
  "trim s = rev (dropWhile is_space (rev (dropWhile is_space s)))"

text \<open>\<^verbatim>\<open>lines.join('\n')\<close>.\<close>

fun join_lines :: "string list \<Rightarrow> string" where
  "join_lines [] = []"
| "join_lines [l] = l"
| "join_lines (l # ls) = l @ char_of (10 :: nat) # join_lines ls"

subsection \<open>The backend client and the per-session protocol server\<close>

text \<open>
  The shared \<^verbatim>\<open>Client\<close> (\<^verbatim>\<open>upstream\<close>) is used through two operations. Their
  outcome, a response or the rejection of the promise, is one value of \<open>'r\<close>.
\<close>

record ('p, 'r) client =
  listTools :: "'p \<Rightarrow> 'r"
  callTool :: "'p \<Rightarrow> 'r"

record 'p rpc_request =
  rpc_method :: string
  params :: 'p

text \<open>A \<^verbatim>\<open>Server\<close> with the two request handlers \<^verbatim>\<open>createSessionServer\<close> sets; \<open>ref\<close>
  is the identity of the instance.\<close>

record ('p, 'r) mcp_server =
  ref :: nat
  listToolsHandler :: "'p rpc_request \<Rightarrow> 'r"
  callToolHandler :: "'p rpc_request \<Rightarrow> 'r"

definition createSessionServer :: "('p, 'r) client \<Rightarrow> nat \<Rightarrow> ('p, 'r) mcp_server" where
  "createSessionServer upstream k =
     \<lparr> ref = k,
       listToolsHandler = (\<lambda>request. listTools upstream (params request)),
       callToolHandler = (\<lambda>request. callTool upstream (params request)) \<rparr>"

subsection \<open>Requests, the registry and the effects of the bridge\<close>

datatype header_value = Absent | Single string | Multiple "string list"

record http_request =
  url :: "string option"
  http_method :: "string option"
  mcp_session_id :: header_value
  chunks :: "string list"

text \<open>
  What the library calls made while one request is handled return on it:
  \<^item> \<open>url_pathname\<close>: \<^verbatim>\<open>new URL(req.url, endpoint).pathname\<close>, or what the constructor throws;
  \<^item> \<open>json_parse\<close>: \<^verbatim>\<open>JSON.parse(raw)\<close> on the trimmed body text, or what it throws;
  \<^item> \<open>is_initialize\<close>: \<^verbatim>\<open>isInitializeRequest(body)\<close>;
  \<^item> \<open>connect_rejects\<close>: the rejection of \<^verbatim>\<open>mcpServer.connect(transport)\<close>, if any;
  \<^item> \<open>handle_rejects\<close>: the rejection of \<^verbatim>\<open>transport.handleRequest\<close>, if any, with
    \<^verbatim>\<open>res.headersSent\<close> at that moment.
\<close>

record externals =
  url_pathname :: "thrown + string"
  json_parse :: "thrown + json"
  is_initialize :: bool
  connect_rejects :: "thrown option"
  handle_rejects :: "(thrown \<times> bool) option"

record ('p, 'r) transport_session =
  server :: "('p, 'r) mcp_server"
  transport :: nat

text \<open>
  \<^verbatim>\<open>McpBridgeStartOptions\<close> (\<open>saveEndpoint\<close> is read by the saving variant only),
  and the variables the callbacks close over: \<^verbatim>\<open>endpoint.toString()\<close>, \<^verbatim>\<open>options\<close>
  and \<^verbatim>\<open>upstream\<close>.
\<close>

record start_options =
  host :: string
  port :: number
  path :: string
  saveEndpoint :: bool

record ('p, 'r) bridge =
  endpoint :: string
  options :: start_options
  upstream :: "('p, 'r) client"

text \<open>
  \<open>sessions\<close> is the \<^verbatim>\<open>Map\<close>, in insertion order. \<open>created\<close> is the number of
  handshakes so far; handshake \<open>k\<close> has the local variables \<^verbatim>\<open>transport\<close> (transport
  \<open>k\<close>) and \<^verbatim>\<open>mcpServer\<close> (\<open>mcpServer st k\<close>, the server of reference \<open>k\<close>).
  \<open>sessionId st k\<close> is the \<^verbatim>\<open>sessionId\<close> property of transport \<open>k\<close>.
  \<open>connected st k\<close> holds from the moment \<^verbatim>\<open>mcpServer.connect(transport)\<close> of handshake
  \<open>k\<close> has resolved until transport \<open>k\<close> closes: the server then receives the requests
  of the transport, and closing the server closes the transport.
\<close>

record ('p, 'r) bridge_state =
  sessions :: "(string \<times> ('p, 'r) transport_session) list"
  sessionId :: "nat \<Rightarrow> string option"
  mcpServer :: "nat \<Rightarrow> ('p, 'r) mcp_server option"
  connected :: "nat \<Rightarrow> bool"
  created :: nat

definition initial :: "('p, 'r) bridge_state" where
  "initial =
     \<lparr> sessions = [], sessionId = (\<lambda>k. None), mcpServer = (\<lambda>k. None),
       connected = (\<lambda>k. False), created = 0 \<rparr>"

datatype effect =
    NewTransport nat
  | NewServer nat
  | ServerConnect nat nat
  | HandleRequest nat "json option"
  | Send response
  | Log string
  | CloseSessionServer nat
  | CloseSessionTransport nat
  | ClearSessions
  | CloseListener
  | CloseUpstream
  | CloseUpstreamTransport
  | ConnectUpstream
  | ReadConfig
  | WriteConfig string
  | CreateHttpServer
  | OnceSignal string
  | Listen number string
  | ProcessExit nat

subsection \<open>The request handler\<close>

definition parseJsonBody :: "string list \<Rightarrow> thrown + json \<Rightarrow> thrown + json option" where
  "parseJsonBody cs parsed =
     (if cs = [] then Inr None
      else let raw = trim (concat cs) in
        if raw = [] then Inr None
        else (case parsed of Inl e \<Rightarrow> Inl e | Inr j \<Rightarrow> Inr (Some j)))"

definition header_sessionId :: "header_value \<Rightarrow> string option" where
  "header_sessionId h =
     (case h of
        Single s \<Rightarrow> Some s
      | Multiple xs \<Rightarrow> (case xs of [] \<Rightarrow> None | x # _ \<Rightarrow> Some x)
      | Absent \<Rightarrow> None)"

text \<open>\<^verbatim>\<open>!sessionId\<close>: the header is missing or the empty string.\<close>

definition falsy :: "string option \<Rightarrow> bool" where
  "falsy sid = (case sid of None \<Rightarrow> True | Some i \<Rightarrow> i = [])"

text \<open>\<^verbatim>\<open>req.url\<close> is a non-empty string.\<close>

definition has_url :: "http_request \<Rightarrow> bool" where
  "has_url req = (case url req of None \<Rightarrow> False | Some u \<Rightarrow> u \<noteq> [])"

text \<open>\<^verbatim>\<open>req.method?.toUpperCase() ?? ''\<close>.\<close>

definition method_of :: "http_request \<Rightarrow> string" where
  "method_of req = (case http_method req of None \<Rightarrow> [] | Some m \<Rightarrow> toUpperCase m)"

text \<open>\<^verbatim>\<open>sessionId && sessions.has(sessionId)\<close>, with the entry \<^verbatim>\<open>sessions.get\<close> returns.\<close>

definition active :: "('p, 'r) bridge_state \<Rightarrow> string option \<Rightarrow> ('p, 'r) transport_session option" where
  "active st sid =
     (case sid of
        None \<Rightarrow> None
      | Some s \<Rightarrow> if s = [] then None else map_of (sessions st) s)"

definition error_envelope :: "real \<Rightarrow> string \<Rightarrow> json" where
  "error_envelope code message =
     JObject [(''jsonrpc'', JString ''2.0''),
              (''error'', JObject [(''code'', JNumber code), (''message'', JString message)]),
              (''id'', JNull)]"

definition missing_url :: response where
  "missing_url = \<lparr> statusCode = 400, content_type = None, payload = Text ''Missing URL'' \<rparr>"

text \<open>The health branch leaves \<^verbatim>\<open>res.statusCode\<close> at its default, 200.\<close>

definition health :: "string \<Rightarrow> response" where
  "health ep =
     \<lparr> statusCode = 200, content_type = Some ''application/json'',
       payload = Json (JObject [(''ok'', JBool True), (''endpoint'', JString ep)]) \<rparr>"

definition not_found :: response where
  "not_found = \<lparr> statusCode = 404, content_type = None, payload = Text ''Not found'' \<rparr>"

definition missing_session :: response where
  "missing_session =
     \<lparr> statusCode = 400, content_type = Some ''application/json'',
       payload = Json (error_envelope (- 32000) ''Bad Request: missing valid MCP session'') \<rparr>"

definition invalid_session :: response where
  "invalid_session =
     \<lparr> statusCode = 400, content_type = None,
       payload = Text ''Invalid or missing MCP session ID'' \<rparr>"

definition method_not_allowed :: response where
  "method_not_allowed =
     \<lparr> statusCode = 405, content_type = None, payload = Text ''Method not allowed'' \<rparr>"

definition internal_error :: "string \<Rightarrow> response" where
  "internal_error message =
     \<lparr> statusCode = 500, content_type = Some ''application/json'',
       payload = Json (error_envelope (- 32603) message) \<rparr>"

text \<open>
  The body of the \<^verbatim>\<open>try\<close> block: the effects, the state, and what was thrown (with
  \<^verbatim>\<open>res.headersSent\<close>) if the block was left by an exception.
\<close>

type_synonym ('p, 'r) attempt =
  "effect list \<times> ('p, 'r) bridge_state \<times> (thrown \<times> bool) option"

definition forward ::
  "('p, 'r) bridge_state \<Rightarrow> externals \<Rightarrow> effect list \<Rightarrow> nat \<Rightarrow> json option \<Rightarrow> ('p, 'r) attempt" where
  "forward st ext effs t body =
     (effs @ [HandleRequest t body], st, handle_rejects ext)"

text \<open>
  The handshake: a transport and a server are constructed, the server is connected to
  the transport, and the request is handed to the transport.
\<close>

definition initialize_session ::
  "('p, 'r) bridge \<Rightarrow> ('p, 'r) bridge_state \<Rightarrow> externals \<Rightarrow> json option \<Rightarrow>
     ('p, 'r) attempt" where
  "initialize_session b st ext body =
     (let k = created st;
          st' = st \<lparr> mcpServer := (mcpServer st)(k \<mapsto> createSessionServer (upstream b) k),
                     created := Suc k \<rparr>;
          made = [NewTransport k, NewServer k, ServerConnect k k]
      in case connect_rejects ext of
           Some e \<Rightarrow> (made, st', Some (e, False))
         | None \<Rightarrow>
             forward (st' \<lparr> connected := (connected st')(k := True) \<rparr>) ext made k body)"

definition route ::
  "('p, 'r) bridge \<Rightarrow> ('p, 'r) bridge_state \<Rightarrow> http_request \<Rightarrow> externals \<Rightarrow> ('p, 'r) attempt" where
  "route b st req ext =
     (if \<not> has_url req then ([Send missing_url], st, None)
      else case url_pathname ext of
        Inl e \<Rightarrow> ([], st, Some (e, False))
      | Inr pathname \<Rightarrow>
          if pathname = ''/health'' then ([Send (health (endpoint b))], st, None)
          else if pathname \<noteq> normalizePath (path (options b)) then ([Send not_found], st, None)
          else
            let method = method_of req in
            case (if method = ''POST'' then parseJsonBody (chunks req) (json_parse ext)
                  else Inr None) of
              Inl e \<Rightarrow> ([], st, Some (e, False))
            | Inr body \<Rightarrow>
                let sid = header_sessionId (mcp_session_id req) in
                if method = ''POST'' then
                  (case active st sid of
                     Some s \<Rightarrow> forward st ext [] (transport s) body
                   | None \<Rightarrow>
                       if falsy sid \<and> is_initialize ext
                       then initialize_session b st ext body
                       else ([Send missing_session], st, None))
                else if method = ''GET'' \<or> method = ''DELETE'' then
                  (case active st sid of
                     None \<Rightarrow> ([Send invalid_session], st, None)
                   | Some s \<Rightarrow> forward st ext [] (transport s) None)
                else ([Send method_not_allowed], st, None))"

text \<open>The \<^verbatim>\<open>catch\<close> block: a 500 envelope, unless the response has started.\<close>

definition request_handler ::
  "('p, 'r) bridge \<Rightarrow> ('p, 'r) bridge_state \<Rightarrow> http_request \<Rightarrow> externals \<Rightarrow>
     effect list \<times> ('p, 'r) bridge_state" where
  "request_handler b st req ext =
     (case route b st req ext of
        (effs, st', None) \<Rightarrow> (effs, st')
      | (effs, st', Some (e, headersSent)) \<Rightarrow>
          (if \<not> headersSent then effs @ [Send (internal_error (message_of e))] else effs, st'))"

subsection \<open>The callbacks and the runs of the bridge\<close>

text \<open>
  \<^verbatim>\<open>onsessioninitialized\<close> of the transport of handshake \<open>k\<close>: \<^verbatim>\<open>mcpServer\<close> and
  \<^verbatim>\<open>transport\<close> are the variables of that handshake. Without a handshake \<open>k\<close> there
  is no such callback.
\<close>

definition onsessioninitialized ::
  "nat \<Rightarrow> string \<Rightarrow> ('p, 'r) bridge_state \<Rightarrow> ('p, 'r) bridge_state" where
  "onsessioninitialized k newSessionId st =
     (case mcpServer st k of
        None \<Rightarrow> st
      | Some server_k \<Rightarrow>
          st \<lparr> sessions :=
                 AList.update newSessionId \<lparr> server = server_k, transport = k \<rparr>
                   (sessions st) \<rparr>)"

text \<open>
  \<^verbatim>\<open>close()\<close> of a session server, as the SDK's \<^verbatim>\<open>Server\<close> does it: it closes the
  transport the server is connected to, if any. The server of reference \<open>r\<close> is the
  server of handshake \<open>r\<close>, which that handshake connected to transport \<open>r\<close>.
\<close>

definition server_close :: "('p, 'r) bridge_state \<Rightarrow> nat \<Rightarrow> effect list" where
  "server_close st r =
     CloseSessionServer r # (if connected st r then [CloseSessionTransport r] else [])"

text \<open>\<^verbatim>\<open>transport.onclose\<close> of transport \<open>k\<close>, in each variant.\<close>

definition onclose ::
  "variant \<Rightarrow> nat \<Rightarrow> ('p, 'r) bridge_state \<Rightarrow> effect list \<times> ('p, 'r) bridge_state" where
  "onclose v k st =
     (case sessionId st k of
        None \<Rightarrow> ([], st)
      | Some closedSessionId \<Rightarrow>
          if closedSessionId = [] then ([], st)
          else (case v of
                  Plain \<Rightarrow> ([], st \<lparr> sessions := AList.delete closedSessionId (sessions st) \<rparr>)
                | Saving \<Rightarrow>
                    (case map_of (sessions st) closedSessionId of
                       None \<Rightarrow> ([], st)
                     | Some closedSession \<Rightarrow>
                         (server_close st (ref (server closedSession)),
                          st \<lparr> sessions := AList.delete closedSessionId (sessions st) \<rparr>))))"

text \<open>\<^verbatim>\<open>upstream.onerror\<close>: the error is logged, nothing else.\<close>

definition onerror :: "string \<Rightarrow> effect list" where
  "onerror message = [Log (''Upstream stdio MCP error: '' @ message)]"

text \<open>
  What can happen to a running bridge: a request arrives; the transport of handshake
  \<open>k\<close>, inside the \<^verbatim>\<open>handleRequest\<close> that the handshake calls once the server is
  connected, takes the id its generator \<^verbatim>\<open>randomUUID()\<close> returned and calls
  \<^verbatim>\<open>onsessioninitialized\<close> with it; the transport of handshake \<open>k\<close> closes, calls
  \<^verbatim>\<open>onclose\<close> and is no longer connected to its server; the backend client reports an
  asynchronous error. Each callback is one
  step of a run: the request handler reads the registry once, after the body has been
  read, and what other callbacks do between the awaits of one callback is not
  interleaved with it.
\<close>

datatype event =
    Request http_request externals
  | SessionInitialized nat string
  | TransportClosed nat
  | UpstreamError string

fun step ::
  "variant \<Rightarrow> ('p, 'r) bridge \<Rightarrow> ('p, 'r) bridge_state \<Rightarrow> event \<Rightarrow>
     effect list \<times> ('p, 'r) bridge_state" where
  "step v b st (Request req ext) = request_handler b st req ext"
| "step v b st (SessionInitialized k sid) =
     ([], if connected st k
          then onsessioninitialized k sid (st \<lparr> sessionId := (sessionId st)(k \<mapsto> sid) \<rparr>)
          else st)"
| "step v b st (TransportClosed k) =
     (let (effs, st') = onclose v k st
      in (effs, st' \<lparr> connected := (connected st')(k := False) \<rparr>))"
| "step v b st (UpstreamError message) = (onerror message, st)"

fun run ::
  "variant \<Rightarrow> ('p, 'r) bridge \<Rightarrow> ('p, 'r) bridge_state \<Rightarrow> event list \<Rightarrow> ('p, 'r) bridge_state" where
  "run v b st [] = st"
| "run v b st (ev # evs) = run v b (snd (step v b st ev)) evs"


text \<open>The ids the generator returned in a run, and the transports that took one.\<close>

fun issued :: "event list \<Rightarrow> string list" where
  "issued [] = []"
| "issued (SessionInitialized k sid # evs) = sid # issued evs"
| "issued (ev # evs) = issued evs"

fun initialized :: "event list \<Rightarrow> nat list" where
  "initialized [] = []"
| "initialized (SessionInitialized k sid # evs) = k # initialized evs"
| "initialized (ev # evs) = initialized evs"

subsection \<open>Shutdown\<close>

text \<open>
  An awaited call: the effects performed and the rejection, if any. \<open>rejects\<close> says
  which calls reject. \<open>then_do\<close> is the sequence of two awaits (the second runs only
  when the first did not reject), \<open>catch_undefined\<close> is \<^verbatim>\<open>.catch(() => undefined)\<close>.
  \<open>calls\<close> is one awaited call that makes several: it rejects with the first rejection
  among them.
\<close>

type_synonym outcome = "effect list \<times> thrown option"

definition call :: "(effect \<Rightarrow> thrown option) \<Rightarrow> effect \<Rightarrow> outcome" where
  "call rejects e = ([e], rejects e)"

definition calls :: "(effect \<Rightarrow> thrown option) \<Rightarrow> effect list \<Rightarrow> outcome" where
  "calls rejects es = (es, case List.map_filter rejects es of [] \<Rightarrow> None | e # _ \<Rightarrow> Some e)"

definition catch_undefined :: "outcome \<Rightarrow> outcome" where
  "catch_undefined r = (fst r, None)"

definition then_do :: "outcome \<Rightarrow> outcome \<Rightarrow> outcome" where
  "then_do a b = (case snd a of Some e \<Rightarrow> a | None \<Rightarrow> (fst a @ fst b, snd b))"

text \<open>
  The loop of \<^verbatim>\<open>cleanup\<close> over \<^verbatim>\<open>sessions.values()\<close>, in each variant, on the
  entries the registry holds when \<^verbatim>\<open>cleanup\<close> starts. A transport that has been closed
  is no longer connected to its server. The callbacks the closing transports call are
  steps of their own (\<open>TransportClosed\<close>).
\<close>

definition disconnect :: "nat \<Rightarrow> ('p, 'r) bridge_state \<Rightarrow> ('p, 'r) bridge_state" where
  "disconnect t st = st \<lparr> connected := (connected st)(t := False) \<rparr>"

fun close_sessions ::
  "variant \<Rightarrow> (effect \<Rightarrow> thrown option) \<Rightarrow> ('p, 'r) bridge_state \<Rightarrow>
     (string \<times> ('p, 'r) transport_session) list \<Rightarrow> outcome \<times> ('p, 'r) bridge_state" where
  "close_sessions v rejects st [] = (([], None), st)"
| "close_sessions Plain rejects st ((sid, s) # rest) =
     (let closing = catch_undefined (calls rejects (server_close st (ref (server s))));
          (r, st') = close_sessions Plain rejects (disconnect (ref (server s)) st) rest
      in (then_do closing r, st'))"
| "close_sessions Saving rejects st ((sid, s) # rest) =
     (let closing_transport = catch_undefined (call rejects (CloseSessionTransport (transport s)));
          st1 = disconnect (transport s) st;
          closing_server = catch_undefined (calls rejects (server_close st1 (ref (server s))));
          (r, st') = close_sessions Saving rejects (disconnect (ref (server s)) st1) rest
      in (then_do closing_transport (then_do closing_server r), st'))"

text \<open>The listener's \<^verbatim>\<open>close\<close> resolves the promise whatever its callback is given.\<close>

definition cleanup ::
  "variant \<Rightarrow> (effect \<Rightarrow> thrown option) \<Rightarrow> ('p, 'r) bridge_state \<Rightarrow>
     outcome \<times> ('p, 'r) bridge_state" where
  "cleanup v rejects st =
     (let (closed_sessions, st') = close_sessions v rejects st (sessions st);
          r = then_do closed_sessions
                (then_do ([ClearSessions], None)
                   (then_do ([CloseListener], None)
                      (then_do (catch_undefined (call rejects CloseUpstream))
                         (catch_undefined (call rejects CloseUpstreamTransport)))))
      in (r, if ClearSessions \<in> set (fst r) then st' \<lparr> sessions := [] \<rparr> else st'))"

text \<open>The handler of SIGINT and SIGTERM.\<close>

definition on_signal ::
  "variant \<Rightarrow> (effect \<Rightarrow> thrown option) \<Rightarrow> ('p, 'r) bridge_state \<Rightarrow>
     effect list \<times> ('p, 'r) bridge_state" where
  "on_signal v rejects st =
     (let (r, st') = cleanup v rejects st
      in (fst (catch_undefined r) @ [ProcessExit 0], st'))"

subsection \<open>Startup\<close>

text \<open>
  What the calls of \<^verbatim>\<open>startMcpBridge\<close> return in one start:
  \<^item> \<open>port_text\<close>: \<^verbatim>\<open>options.port\<close> as the template literal renders it;
  \<^item> \<open>endpoint_url\<close>: \<^verbatim>\<open>new URL(...).toString()\<close>, or what the constructor throws;
  \<^item> \<open>connect_outcome\<close>: the rejection of \<^verbatim>\<open>upstream.connect(upstreamTransport)\<close>, if any;
  \<^item> \<open>close_rejects\<close>: the closing calls that reject;
  \<^item> \<open>read_config\<close>, \<open>write_config\<close>, \<open>listen_error\<close>: the rejections of
    \<^verbatim>\<open>readConfig\<close>, \<^verbatim>\<open>writeConfig\<close> and of the listener's \<^verbatim>\<open>error\<close> event, if any.
\<close>

record startup_env =
  port_text :: string
  endpoint_url :: "thrown + string"
  connect_outcome :: "thrown option"
  close_rejects :: "effect \<Rightarrow> thrown option"
  read_config :: "thrown option"
  write_config :: "thrown option"
  listen_error :: "thrown option"

definition invalid_port_message :: "string \<Rightarrow> string" where
  "invalid_port_message p = ''Invalid port '' @ [CHR 0x27] @ p @ [CHR 0x27] @ ''. Use an integer between 1 and 65535.''"

definition diagnostic :: "string \<Rightarrow> string" where
  "diagnostic details =
     join_lines
       [''Unable to connect to Xcode via `xcrun mcpbridge`.'',
        ''Check the following and try again:'',
        ''1) Xcode 26.3 or later is installed.'',
        ''2) Xcode is open.'',
        ''3) `xcode-select -p` points to your Xcode developer directory.'',
        ''Original error: '' @ details]"

text \<open>The saving variant writes the endpoint to the configuration file when asked to.\<close>

definition save_endpoint :: "variant \<Rightarrow> start_options \<Rightarrow> startup_env \<Rightarrow> string \<Rightarrow> outcome" where
  "save_endpoint v opts env href =
     (if v = Saving \<and> saveEndpoint opts
      then then_do ([ReadConfig], read_config env) ([WriteConfig href], write_config env)
      else ([], None))"

definition listening_log :: "variant \<Rightarrow> start_options \<Rightarrow> string \<Rightarrow> effect list" where
  "listening_log v opts href =
     [Log (''MCP bridge listening on '' @ href @
             (if v = Saving \<and> saveEndpoint opts then '' (saved as default endpoint)'' else [])),
      Log ''Upstream stdio: xcrun mcpbridge'']"

definition startMcpBridge ::
  "variant \<Rightarrow> ('p, 'r) client \<Rightarrow> start_options \<Rightarrow> startup_env \<Rightarrow>
     effect list \<times> (thrown + ('p, 'r) bridge)" where
  "startMcpBridge v client opts env =
     (if invalid_port (port opts)
      then ([], Inl (ErrorObject (invalid_port_message (port_text env))))
      else case endpoint_url env of
        Inl e \<Rightarrow> ([], Inl e)
      | Inr href \<Rightarrow>
          (case connect_outcome env of
             Some error \<Rightarrow>
               (case v of
                  Plain \<Rightarrow>
                    (ConnectUpstream #
                       fst (then_do (catch_undefined (call (close_rejects env) CloseUpstream))
                              (catch_undefined (call (close_rejects env) CloseUpstreamTransport))),
                     Inl (ErrorObject (diagnostic (message_of error))))
                | Saving \<Rightarrow> ([ConnectUpstream], Inl error))
           | None \<Rightarrow>
               (case save_endpoint v opts env href of
                  (effs, Some e) \<Rightarrow> (ConnectUpstream # effs, Inl e)
                | (effs, None) \<Rightarrow>
                    (let bound = ConnectUpstream # effs @
                           [CreateHttpServer, OnceSignal ''SIGINT'', OnceSignal ''SIGTERM'',
                            Listen (port opts) (host opts)]
                     in case listen_error env of
                          Some e \<Rightarrow> (bound, Inl e)
                        | None \<Rightarrow>
                            (bound @ listening_log v opts href,
                             Inr \<lparr> endpoint = href, options = opts, upstream = client \<rparr>)))))"

subsection \<open>The error envelope, as a shape\<close>

text \<open>
  A response is a JSON-RPC error envelope when its body is the object
  \<^verbatim>\<open>{"jsonrpc":"2.0","error":{"code":c,"message":m},"id":null}\<close> for the code and the
  message found in it.
\<close>

fun members :: "json \<Rightarrow> (string \<times> json) list" where
  "members (JObject ms) = ms"
| "members j = []"

definition envelope_fields :: "json \<Rightarrow> (real \<times> string) option" where
  "envelope_fields j =
     (case map_of (members j) ''error'' of
        None \<Rightarrow> None
      | Some e \<Rightarrow>
          (case (map_of (members e) ''code'', map_of (members e) ''message'') of
             (Some (JNumber c), Some (JString m)) \<Rightarrow> Some (c, m)
           | _ \<Rightarrow> None))"

definition is_error_envelope :: "response \<Rightarrow> bool" where
  "is_error_envelope r =
     (case payload r of
        Text t \<Rightarrow> False
      | Json j \<Rightarrow>
          (case envelope_fields j of
             None \<Rightarrow> False
           | Some (c, m) \<Rightarrow> j = error_envelope c m))"

subsection \<open>A bridge to run the model on\<close>

text \<open>A backend whose answers show which operation was called and with what; the
  bridge started with the defaults of the \<^verbatim>\<open>bridge\<close> command.\<close>

definition demo_client :: "(string, string) client" where
  "demo_client = \<lparr> listTools = (\<lambda>p. ''tools:'' @ p), callTool = (\<lambda>p. ''result:'' @ p) \<rparr>"

definition demo_options :: start_options where
  "demo_options =
     \<lparr> host = ''127.0.0.1'', port = Finite 49321, path = ''/mcp'', saveEndpoint = False \<rparr>"

definition demo_bridge :: "(string, string) bridge" where
  "demo_bridge =
     \<lparr> endpoint = ''http://127.0.0.1:49321/mcp'', options = demo_options,
       upstream = demo_client \<rparr>"

text \<open>A request to the endpoint path, and library calls that do not fail on it.\<close>

definition demo_request :: "string \<Rightarrow> header_value \<Rightarrow> string list \<Rightarrow> http_request" where
  "demo_request m h cs =
     \<lparr> url = Some ''/mcp'', http_method = Some m, mcp_session_id = h, chunks = cs \<rparr>"

definition demo_externals :: "thrown + json \<Rightarrow> bool \<Rightarrow> externals" where
  "demo_externals parsed init =
     \<lparr> url_pathname = Inr ''/mcp'', json_parse = parsed, is_initialize = init,
       connect_rejects = None, handle_rejects = None \<rparr>"

text \<open>The request is addressed to the configured endpoint path, which is not the
  health path.\<close>

definition on_endpoint :: "('p, 'r) bridge \<Rightarrow> http_request \<Rightarrow> externals \<Rightarrow> bool" where
  "on_endpoint b req ext =
     (has_url req \<and> url_pathname ext = Inr (normalizePath (path (options b)))
      \<and> normalizePath (path (options b)) \<noteq> ''/health'')"

text \<open>The outcomes of a start in which only the backend connection may fail.\<close>

definition demo_env :: "thrown option \<Rightarrow> startup_env" where
  "demo_env failure =
     \<lparr> port_text = ''49321'', endpoint_url = Inr ''http://127.0.0.1:49321/mcp'',
       connect_outcome = failure, close_rejects = (\<lambda>e. None), read_config = None,
       write_config = None, listen_error = None \<rparr>"

subsection \<open>Texts within a message\<close>

text \<open>\<open>occurs_in t s\<close>: the text \<open>t\<close> stands somewhere in \<open>s\<close>.\<close>

fun occurs_in :: "string \<Rightarrow> string \<Rightarrow> bool" where
  "occurs_in t [] = (t = [])"
| "occurs_in t (c # cs) = (take (length t) (c # cs) = t \<or> occurs_in t cs)"

text \<open>Two ids as \<^verbatim>\<open>randomUUID()\<close> returns them.\<close>

abbreviation first_id :: string where
  "first_id \<equiv> ''0b9c3f6e-5a1d-4c8e-9f27-3e6a1d2b4c58''"

abbreviation second_id :: string where
  "second_id \<equiv> ''7e41a2d9-c3b8-4f60-8a15-d29f6b0e7c34''"

text \<open>An initialization handshake, and the runs of the demonstration bridge.\<close>

definition initialize_body :: json where
  "initialize_body =
     JObject [(''jsonrpc'', JString ''2.0''), (''id'', JNumber 0),
              (''method'', JString ''initialize''),
              (''params'',
               JObject [(''protocolVersion'', JString ''2025-03-26''),
                        (''capabilities'', JObject []),
                        (''clientInfo'',
                         JObject [(''name'', JString ''demo''),
                                  (''version'', JString ''1.0.0'')])])]"

definition initialize_request :: http_request where
  \<open>initialize_request =
     demo_request ''POST'' Absent
       [''{"jsonrpc":"2.0","id":0,"method":"initialize","params":{"protocolVersion":'',
        ''"2025-03-26","capabilities":{},"clientInfo":{"name":"demo","version":"1.0.0"}}}'']\<close>

definition initialize_externals :: externals where
  "initialize_externals = demo_externals (Inr initialize_body) True"

definition demo_initialize :: event where
  "demo_initialize = Request initialize_request initialize_externals"

definition demo_run :: "variant \<Rightarrow> event list \<Rightarrow> (string, string) bridge_state" where
  "demo_run v evs = run v demo_bridge initial evs"




subsection \<open>Handshakes and live sessions in a run\<close>


text \<open>
  What the loop of \<^verbatim>\<open>cleanup\<close> does to one registered session whose server is
  connected to its transport: in \<^verbatim>\<open>xcode-mcp.ts\<close> it closes the server, which closes the
  transport; in the saving variant it closes the transport, then the server.
\<close>

definition session_closes :: "variant \<Rightarrow> ('p, 'r) transport_session \<Rightarrow> effect list" where
  "session_closes v s =
     (case v of
        Plain \<Rightarrow> [CloseSessionServer (ref (server s)), CloseSessionTransport (transport s)]
      | Saving \<Rightarrow> [CloseSessionTransport (transport s), CloseSessionServer (ref (server s))])"

text \<open>Handshake \<open>k\<close> has taken place: its server is the one
  \<^verbatim>\<open>createSessionServer(upstream)\<close> made.\<close>

definition made :: "('p, 'r) bridge \<Rightarrow> ('p, 'r) bridge_state \<Rightarrow> nat \<Rightarrow> bool" where
  "made b st k =
     (k < created st \<and> mcpServer st k = Some (createSessionServer (upstream b) k))"

text \<open>
  The registry holds each id once; every entry is under the non-empty id of its
  transport, which is still connected, with the server made in the handshake of that
  transport.
\<close>

definition coherent :: "('p, 'r) bridge \<Rightarrow> ('p, 'r) bridge_state \<Rightarrow> bool" where
  "coherent b st =
     (distinct (map fst (sessions st))
      \<and> (\<forall>sid s. map_of (sessions st) sid = Some s \<longrightarrow>
            sid \<noteq> [] \<and> sessionId st (transport s) = Some sid \<and> connected st (transport s)
            \<and> server s = createSessionServer (upstream b) (transport s))
      \<and> (\<forall>k srv. mcpServer st k = Some srv \<longrightarrow> srv = createSessionServer (upstream b) k))"



section \<open>Properties of the request handler\<close>

lemmas demo_defs = demo_client_def demo_options_def demo_bridge_def demo_request_def
  demo_externals_def

lemmas handler_defs = request_handler_def route_def forward_def initialize_session_def
  has_url_def method_of_def falsy_def active_def header_sessionId_def parseJsonBody_def
  normalizePath_def startsWith_slash_def toUpperCase_def upper_char_def trim_def is_space_def

lemma envelope_fields_envelope: "envelope_fields (error_envelope c m) = Some (c, m)"
  by (simp add: envelope_fields_def error_envelope_def)

lemma is_error_envelope_missing_session: "is_error_envelope missing_session"
  by (simp add: is_error_envelope_def missing_session_def envelope_fields_envelope)

lemma is_error_envelope_internal_error: "is_error_envelope (internal_error m)"
  by (simp add: is_error_envelope_def internal_error_def envelope_fields_envelope)

lemma not_envelope_text:
  "\<not> is_error_envelope missing_url" "\<not> is_error_envelope not_found"
  "\<not> is_error_envelope invalid_session" "\<not> is_error_envelope method_not_allowed"
  by (simp_all add: is_error_envelope_def missing_url_def not_found_def
      invalid_session_def method_not_allowed_def)

lemma route_health:
  assumes "has_url req" "url_pathname ext = Inr ''/health''"
  shows "route b st req ext = ([Send (health (endpoint b))], st, None)"
  using assms by (simp add: route_def)

lemma handler_health:
  assumes "has_url req" "url_pathname ext = Inr ''/health''"
  shows "request_handler b st req ext = ([Send (health (endpoint b))], st)"
  by (simp add: request_handler_def route_health[OF assms])

lemma sends_of_route:
  assumes "Send r \<in> set (fst (route b st req ext))"
  shows "r \<in> {missing_url, health (endpoint b), not_found, missing_session,
              invalid_session, method_not_allowed}"
  using assms
  by (auto simp: route_def forward_def initialize_session_def Let_def
      split: option.splits sum.splits if_splits)

lemma sends_of_handler:
  assumes "Send r \<in> set (fst (request_handler b st req ext))"
  shows "r \<in> {missing_url, health (endpoint b), not_found, missing_session,
              invalid_session, method_not_allowed}
         \<or> (\<exists>e. r = internal_error (message_of e))"
proof -
  obtain effs st' thr where R: "route b st req ext = (effs, st', thr)"
    by (cases "route b st req ext") auto
  have S: "Send r \<in> set effs \<Longrightarrow> ?thesis"
    using sends_of_route[of r b st req ext] R by simp
  show ?thesis using assms R S
    by (auto simp: request_handler_def split: option.splits if_splits)
qed

lemma route_post_rejected:
  assumes "on_endpoint b req ext" "method_of req = ''POST''"
    "parseJsonBody (chunks req) (json_parse ext) = Inr body"
    "active st (header_sessionId (mcp_session_id req)) = None"
    "\<not> (falsy (header_sessionId (mcp_session_id req)) \<and> is_initialize ext)"
  shows "route b st req ext = ([Send missing_session], st, None)"
  using assms by (auto simp: route_def on_endpoint_def)

lemma route_post_unparsable:
  assumes "on_endpoint b req ext" "method_of req = ''POST''"
    "parseJsonBody (chunks req) (json_parse ext) = Inl e"
  shows "route b st req ext = ([], st, Some (e, False))"
  using assms by (auto simp: route_def on_endpoint_def)


lemma route_get_delete_rejected:
  assumes "on_endpoint b req ext" "method_of req = ''GET'' \<or> method_of req = ''DELETE''"
    "active st (header_sessionId (mcp_session_id req)) = None"
  shows "route b st req ext = ([Send invalid_session], st, None)"
  using assms by (auto simp: route_def on_endpoint_def)

subsection \<open>C4: a POST that is neither routed nor an initialization\<close>

text \<open>
  C4, as the specification states it: every POST to the endpoint path that neither
  carries the id of an active session nor is a session-less initialization request is
  answered with HTTP 400 and the envelope of code -32000. The body of a POST is parsed
  before the session is looked at, and a body that is not JSON leaves the handler
  through its \<^verbatim>\<open>catch\<close> block: a POST with no session header and the body \<^verbatim>\<open>{\<close>
  is answered with HTTP 500 and the envelope of code -32603.
\<close>

theorem post_without_session_counterexample:
  "on_endpoint demo_bridge (demo_request ''POST'' Absent [''{''])
       (demo_externals (Inl (ErrorObject ''Unexpected end of JSON input'')) False)
   \<and> method_of (demo_request ''POST'' Absent [''{'']) = ''POST''
   \<and> active initial (header_sessionId (mcp_session_id (demo_request ''POST'' Absent [''{''])))
       = (None :: (string, string) transport_session option)
   \<and> \<not> is_initialize (demo_externals (Inl (ErrorObject ''Unexpected end of JSON input'')) False)
   \<and> request_handler demo_bridge initial (demo_request ''POST'' Absent [''{''])
       (demo_externals (Inl (ErrorObject ''Unexpected end of JSON input'')) False)
     = ([Send (internal_error ''Unexpected end of JSON input'')], initial)
   \<and> statusCode (internal_error ''Unexpected end of JSON input'') = 500
   \<and> payload (internal_error ''Unexpected end of JSON input'')
       = Json (error_envelope (- 32603) ''Unexpected end of JSON input'')"
  by (simp add: handler_defs demo_defs on_endpoint_def internal_error_def initial_def)

text \<open>
  C4, amended: every POST to the endpoint path whose body is empty or parses as JSON,
  and that neither carries the id of an active session nor is a session-less
  initialization request, is answered with HTTP 400 and the envelope of code -32000,
  and the registry is left as it was.
\<close>

theorem post_without_session_rejected:
  assumes "on_endpoint b req ext" "method_of req = ''POST''"
    "parseJsonBody (chunks req) (json_parse ext) = Inr body"
    "active st (header_sessionId (mcp_session_id req)) = None"
    "\<not> (falsy (header_sessionId (mcp_session_id req)) \<and> is_initialize ext)"
  shows "request_handler b st req ext = ([Send missing_session], st)
         \<and> statusCode missing_session = 400
         \<and> content_type missing_session = Some ''application/json''
         \<and> payload missing_session =
             Json (error_envelope (- 32000) ''Bad Request: missing valid MCP session'')"
  by (simp add: request_handler_def route_post_rejected[OF assms] missing_session_def)

theorem post_without_session_rejected_witness:
  "on_endpoint demo_bridge (demo_request ''POST'' Absent [''{}''])
       (demo_externals (Inr (JObject [])) False)
   \<and> method_of (demo_request ''POST'' Absent [''{}'']) = ''POST''
   \<and> parseJsonBody (chunks (demo_request ''POST'' Absent [''{}'']))
        (json_parse (demo_externals (Inr (JObject [])) False)) = Inr (Some (JObject []))
   \<and> active initial (header_sessionId (mcp_session_id (demo_request ''POST'' Absent [''{}''])))
       = (None :: (string, string) transport_session option)
   \<and> \<not> is_initialize (demo_externals (Inr (JObject [])) False)
   \<and> request_handler demo_bridge initial (demo_request ''POST'' Absent [''{}''])
        (demo_externals (Inr (JObject [])) False)
      = ([Send missing_session], initial)"
  using post_without_session_rejected[of demo_bridge "demo_request ''POST'' Absent [''{}'']"
      "demo_externals (Inr (JObject [])) False" "Some (JObject [])" initial]
  by (simp add: handler_defs demo_defs on_endpoint_def initial_def)

section \<open>Properties of startup\<close>

lemma invalid_port_iff:
  "invalid_port p \<longleftrightarrow> \<not> (\<exists>n::int. p = Finite (of_int n) \<and> 1 \<le> n \<and> n \<le> 65535)"
proof (cases p)
  case (Finite r)
  show ?thesis
  proof (cases "of_int (floor r) = r")
    case True
    then have "(\<exists>n::int. Finite r = Finite (of_int n) \<and> 1 \<le> n \<and> n \<le> 65535)
                 \<longleftrightarrow> (1 \<le> floor r \<and> floor r \<le> 65535)"
      by (metis number.inject floor_of_int)
    moreover have "r < 1 \<longleftrightarrow> floor r < 1" using True by linarith
    moreover have "65535 < r \<longleftrightarrow> 65535 < floor r" using True by linarith
    ultimately show ?thesis using True Finite
      by (auto simp: invalid_port_def isInteger_def less_number_def greater_number_def)
  next
    case False
    then have "\<not> (\<exists>n::int. r = of_int n)" by auto
    then show ?thesis using False Finite
      by (auto simp: invalid_port_def isInteger_def)
  qed
qed (auto simp: invalid_port_def isInteger_def less_number_def greater_number_def)

lemma start_invalid_port:
  "invalid_port (port opts) \<Longrightarrow>
     startMcpBridge v client opts env
       = ([], Inl (ErrorObject (invalid_port_message (port_text env))))"
  by (simp add: startMcpBridge_def)

lemma start_connects:
  assumes "\<not> invalid_port (port opts)" "endpoint_url env = Inr href"
  shows "ConnectUpstream \<in> set (fst (startMcpBridge v client opts env))"
  using assms
  by (auto simp: startMcpBridge_def Let_def split: option.splits variant.splits prod.splits)

subsection \<open>C8: the port\<close>

text \<open>
  C8: in both variants \<^verbatim>\<open>startMcpBridge\<close> accepts a port exactly when it is an
  integer between 1 and 65535. For any other value (0, -1, 65536 and NaN among them) it
  throws at once: nothing has been done by then, no backend connection, no listener
  created or bound. With an accepted port (and an endpoint URL that can be built) the
  start goes on to connect the backend.
\<close>

theorem port_checked_first:
  "(invalid_port (port opts) \<longleftrightarrow>
       \<not> (\<exists>n::int. port opts = Finite (of_int n) \<and> 1 \<le> n \<and> n \<le> 65535))
   \<and> (invalid_port (port opts) \<longrightarrow>
         startMcpBridge v client opts env
           = ([], Inl (ErrorObject (invalid_port_message (port_text env)))))
   \<and> (\<not> invalid_port (port opts) \<and> endpoint_url env = Inr href \<longrightarrow>
         ConnectUpstream \<in> set (fst (startMcpBridge v client opts env)))
   \<and> invalid_port (Finite 0) \<and> invalid_port (Finite (- 1)) \<and> invalid_port (Finite 65536)
   \<and> invalid_port NaN"
proof -
  have "invalid_port (Finite 0) \<and> invalid_port (Finite (- 1)) \<and> invalid_port (Finite 65536)
   \<and> invalid_port NaN"
    by (simp add: invalid_port_def isInteger_def less_number_def greater_number_def)
  then show ?thesis
    using invalid_port_iff[of "port opts"] start_invalid_port[of opts v client env]
      start_connects[of opts env href v client]
    by blast
qed

theorem port_checked_first_witness:
  "invalid_port (port (demo_options \<lparr> port := Finite 0 \<rparr>))
   \<and> startMcpBridge Saving demo_client (demo_options \<lparr> port := Finite 0 \<rparr>)
        ((demo_env None) \<lparr> port_text := ''0'' \<rparr>)
       = ([], Inl (ErrorObject (invalid_port_message ''0'')))
   \<and> \<not> invalid_port (port demo_options)
   \<and> endpoint_url (demo_env None) = Inr ''http://127.0.0.1:49321/mcp''
   \<and> ConnectUpstream \<in> set (fst (startMcpBridge Plain demo_client demo_options (demo_env None)))"
  using port_checked_first[of "demo_options \<lparr> port := Finite 0 \<rparr>" Saving demo_client
      "(demo_env None) \<lparr> port_text := ''0'' \<rparr>" "''x''"]
    port_checked_first[of demo_options Plain demo_client "demo_env None"
      "''http://127.0.0.1:49321/mcp''"]
  by (simp add: demo_defs demo_env_def)

subsection \<open>C5: a backend that cannot be connected\<close>

lemma occurs_in_prefix: "occurs_in t (t @ b)"
proof (cases "t @ b")
  case Nil
  then show ?thesis by simp
next
  case (Cons c cs)
  have "take (length t) (t @ b) = t" by simp
  then show ?thesis using Cons by simp
qed

lemma occurs_in_append: "occurs_in t (a @ t @ b)"
proof (induction a)
  case Nil
  show ?case using occurs_in_prefix by simp
next
  case (Cons c a)
  then show ?case by simp
qed

lemma diagnostic_causes:
  "occurs_in ''1) Xcode 26.3 or later is installed.'' (diagnostic d)"
  "occurs_in ''2) Xcode is open.'' (diagnostic d)"
  "occurs_in ''3) `xcode-select -p` points to your Xcode developer directory.'' (diagnostic d)"
  "occurs_in (''Original error: '' @ d) (diagnostic d)"
proof -
  let ?l1 = "''Unable to connect to Xcode via `xcrun mcpbridge`.''"
  let ?l2 = "''Check the following and try again:''"
  let ?l3 = "''1) Xcode 26.3 or later is installed.''"
  let ?l4 = "''2) Xcode is open.''"
  let ?l5 = "''3) `xcode-select -p` points to your Xcode developer directory.''"
  let ?l6 = "''Original error: '' @ d"
  let ?nl = "[char_of (10::nat)]"
  have D: "diagnostic d = ?l1 @ ?nl @ ?l2 @ ?nl @ ?l3 @ ?nl @ ?l4 @ ?nl @ ?l5 @ ?nl @ ?l6"
    unfolding diagnostic_def by simp
  have "diagnostic d = (?l1 @ ?nl @ ?l2 @ ?nl) @ ?l3 @ (?nl @ ?l4 @ ?nl @ ?l5 @ ?nl @ ?l6)"
    unfolding D by simp
  then show "occurs_in ?l3 (diagnostic d)" using occurs_in_append by metis
  have "diagnostic d = (?l1 @ ?nl @ ?l2 @ ?nl @ ?l3 @ ?nl) @ ?l4 @ (?nl @ ?l5 @ ?nl @ ?l6)"
    unfolding D by simp
  then show "occurs_in ?l4 (diagnostic d)" using occurs_in_append by metis
  have "diagnostic d = (?l1 @ ?nl @ ?l2 @ ?nl @ ?l3 @ ?nl @ ?l4 @ ?nl) @ ?l5 @ (?nl @ ?l6)"
    unfolding D by simp
  then show "occurs_in ?l5 (diagnostic d)" using occurs_in_append by metis
  have "diagnostic d = (?l1 @ ?nl @ ?l2 @ ?nl @ ?l3 @ ?nl @ ?l4 @ ?nl @ ?l5 @ ?nl) @ ?l6 @ []"
    unfolding D by simp
  then show "occurs_in ?l6 (diagnostic d)" using occurs_in_append by metis
qed

lemma start_connect_failed:
  assumes "\<not> invalid_port (port opts)" "endpoint_url env = Inr href"
    "connect_outcome env = Some error"
  shows "startMcpBridge v client opts env =
           (case v of
              Plain \<Rightarrow> ([ConnectUpstream, CloseUpstream, CloseUpstreamTransport],
                         Inl (ErrorObject (diagnostic (message_of error))))
            | Saving \<Rightarrow> ([ConnectUpstream], Inl error))"
  using assms
  by (simp add: startMcpBridge_def then_do_def catch_undefined_def call_def split: variant.splits)

text \<open>
  C5, as the specification states it: in both variants a failed backend connection
  makes \<^verbatim>\<open>startMcpBridge\<close> raise an error whose message enumerates the likely causes.
  The saving variant awaits \<^verbatim>\<open>upstream.connect\<close> outside any \<^verbatim>\<open>try\<close>: the error it
  raises is the one the connection raised, here \<^verbatim>\<open>spawn xcrun ENOENT\<close>, which names
  no cause about Xcode.
\<close>

theorem connect_failure_counterexample:
  "\<not> invalid_port (port demo_options)
   \<and> connect_outcome (demo_env (Some (ErrorObject ''spawn xcrun ENOENT'')))
       = Some (ErrorObject ''spawn xcrun ENOENT'')
   \<and> startMcpBridge Saving demo_client demo_options
        (demo_env (Some (ErrorObject ''spawn xcrun ENOENT'')))
       = ([ConnectUpstream], Inl (ErrorObject ''spawn xcrun ENOENT''))
   \<and> \<not> occurs_in ''Xcode'' ''spawn xcrun ENOENT''"
  by (simp add: startMcpBridge_def demo_defs demo_env_def invalid_port_def isInteger_def
      less_number_def greater_number_def)

text \<open>
  C5, amended: whenever the backend connection fails, \<^verbatim>\<open>startMcpBridge\<close> fails in both
  variants, having tried the connection once and created or bound no listener. In the
  variant of \<^verbatim>\<open>xcode-mcp.ts\<close> the error raised carries the diagnostic, which names the
  three causes (Xcode version, Xcode not open, developer directory) and the original
  error; in the saving variant the error raised is the connection's own.
\<close>

theorem connect_failure_aborts:
  assumes "\<not> invalid_port (port opts)" "endpoint_url env = Inr href"
    "connect_outcome env = Some error"
  shows "snd (startMcpBridge v client opts env) =
           Inl (case v of Plain \<Rightarrow> ErrorObject (diagnostic (message_of error)) | Saving \<Rightarrow> error)
         \<and> count_list (fst (startMcpBridge v client opts env)) ConnectUpstream = 1
         \<and> CreateHttpServer \<notin> set (fst (startMcpBridge v client opts env))
         \<and> Listen (port opts) (host opts) \<notin> set (fst (startMcpBridge v client opts env))
         \<and> occurs_in ''1) Xcode 26.3 or later is installed.'' (diagnostic (message_of error))
         \<and> occurs_in ''2) Xcode is open.'' (diagnostic (message_of error))
         \<and> occurs_in ''3) `xcode-select -p` points to your Xcode developer directory.''
              (diagnostic (message_of error))
         \<and> occurs_in (''Original error: '' @ message_of error) (diagnostic (message_of error))"
  using start_connect_failed[OF assms, of v client] diagnostic_causes[of "message_of error"]
  by (cases v) simp_all

theorem connect_failure_aborts_witness:
  "\<not> invalid_port (port demo_options)
   \<and> endpoint_url (demo_env (Some (NonError ''timeout''))) = Inr ''http://127.0.0.1:49321/mcp''
   \<and> connect_outcome (demo_env (Some (NonError ''timeout''))) = Some (NonError ''timeout'')
   \<and> startMcpBridge Plain demo_client demo_options (demo_env (Some (NonError ''timeout'')))
       = ([ConnectUpstream, CloseUpstream, CloseUpstreamTransport],
          Inl (ErrorObject (diagnostic ''timeout'')))
   \<and> snd (startMcpBridge Saving demo_client demo_options (demo_env (Some (NonError ''timeout''))))
       = Inl (NonError ''timeout'')"
  using connect_failure_aborts[of demo_options "demo_env (Some (NonError ''timeout''))"
      "''http://127.0.0.1:49321/mcp''" "NonError ''timeout''" Plain demo_client]
    connect_failure_aborts[of demo_options "demo_env (Some (NonError ''timeout''))"
      "''http://127.0.0.1:49321/mcp''" "NonError ''timeout''" Saving demo_client]
  by (simp add: startMcpBridge_def demo_defs demo_env_def invalid_port_def isInteger_def
      less_number_def greater_number_def then_do_def catch_undefined_def call_def)

section \<open>Properties of single requests, continued\<close>

lemmas run_defs = demo_run_def demo_initialize_def initialize_request_def
  initialize_externals_def initial_def onsessioninitialized_def onclose_def
  createSessionServer_def onerror_def

subsection \<open>C7: the bodies of error responses\<close>

text \<open>
  C7, as the specification states it: every error response of the bridge is a JSON-RPC
  error envelope, and in particular every rejected session id, on GET and DELETE too, is
  HTTP 400 with that envelope. A GET bearing an unknown session id is answered with
  HTTP 400 and the plain text \<^verbatim>\<open>Invalid or missing MCP session ID\<close>.
\<close>

theorem error_bodies_counterexample:
  "on_endpoint demo_bridge (demo_request ''GET'' (Single ''gone'') []) (demo_externals (Inr JNull) False)
   \<and> request_handler demo_bridge initial (demo_request ''GET'' (Single ''gone'') [])
        (demo_externals (Inr JNull) False)
      = ([Send invalid_session], initial)
   \<and> statusCode invalid_session = 400
   \<and> payload invalid_session = Text ''Invalid or missing MCP session ID''
   \<and> \<not> is_error_envelope invalid_session"
  by (simp add: handler_defs demo_defs on_endpoint_def initial_def invalid_session_def
      is_error_envelope_def)

text \<open>
  C7, amended: the responses the handler itself sends are the health response, two
  JSON-RPC error envelopes (HTTP 400 with code -32000 for a POST that is neither routed
  nor an initialization, HTTP 500 with code -32603 from the \<^verbatim>\<open>catch\<close> block) and four
  plain-text responses without a content type (400 for a missing URL, 404, 405, and 400
  with \<^verbatim>\<open>Invalid or missing MCP session ID\<close>); a GET or DELETE to the endpoint path
  without the id of an active session gets the last of these.
\<close>

theorem error_bodies:
  "(Send r \<in> set (fst (request_handler b st req ext)) \<longrightarrow>
      r = health (endpoint b)
      \<or> (r = missing_session \<or> (\<exists>e. r = internal_error (message_of e))) \<and> is_error_envelope r
      \<or> r \<in> {missing_url, not_found, invalid_session, method_not_allowed}
          \<and> \<not> is_error_envelope r \<and> content_type r = None)
   \<and> (on_endpoint b req ext \<and> (method_of req = ''GET'' \<or> method_of req = ''DELETE'')
        \<and> active st (header_sessionId (mcp_session_id req)) = None \<longrightarrow>
        request_handler b st req ext = ([Send invalid_session], st))
   \<and> statusCode invalid_session = 400
   \<and> payload invalid_session = Text ''Invalid or missing MCP session ID''
   \<and> statusCode missing_session = 400
   \<and> payload missing_session
       = Json (error_envelope (- 32000) ''Bad Request: missing valid MCP session'')
   \<and> statusCode (internal_error m) = 500
   \<and> payload (internal_error m) = Json (error_envelope (- 32603) m)"
proof -
  have A: "Send r \<in> set (fst (request_handler b st req ext)) \<longrightarrow>
      r = health (endpoint b)
      \<or> (r = missing_session \<or> (\<exists>e. r = internal_error (message_of e))) \<and> is_error_envelope r
      \<or> r \<in> {missing_url, not_found, invalid_session, method_not_allowed}
          \<and> \<not> is_error_envelope r \<and> content_type r = None"
  proof
    assume "Send r \<in> set (fst (request_handler b st req ext))"
    from sends_of_handler[OF this]
    consider "r = health (endpoint b)" | "r = missing_session"
      | e where "r = internal_error (message_of e)"
      | "r \<in> {missing_url, not_found, invalid_session, method_not_allowed}"
      by auto
    then show "r = health (endpoint b)
      \<or> (r = missing_session \<or> (\<exists>e. r = internal_error (message_of e))) \<and> is_error_envelope r
      \<or> r \<in> {missing_url, not_found, invalid_session, method_not_allowed}
          \<and> \<not> is_error_envelope r \<and> content_type r = None"
    proof cases
      case 1 then show ?thesis by simp
    next
      case 2 then show ?thesis using is_error_envelope_missing_session by simp
    next
      case 3 then show ?thesis using is_error_envelope_internal_error by blast
    next
      case 4
      then have "\<not> is_error_envelope r \<and> content_type r = None"
        using not_envelope_text
        by (auto simp: missing_url_def not_found_def invalid_session_def method_not_allowed_def)
      with 4 show ?thesis by blast
    qed
  qed
  have B: "on_endpoint b req ext \<and> (method_of req = ''GET'' \<or> method_of req = ''DELETE'')
        \<and> active st (header_sessionId (mcp_session_id req)) = None \<longrightarrow>
        request_handler b st req ext = ([Send invalid_session], st)"
    using route_get_delete_rejected[of b req ext st] by (auto simp: request_handler_def)
  have C: "statusCode invalid_session = 400
   \<and> payload invalid_session = Text ''Invalid or missing MCP session ID''
   \<and> statusCode missing_session = 400
   \<and> payload missing_session
       = Json (error_envelope (- 32000) ''Bad Request: missing valid MCP session'')
   \<and> statusCode (internal_error m) = 500
   \<and> payload (internal_error m) = Json (error_envelope (- 32603) m)"
    by (simp add: invalid_session_def missing_session_def internal_error_def)
  show ?thesis using A B C by blast
qed

theorem error_bodies_witness:
  "Send missing_session \<in> set (fst (request_handler demo_bridge initial
       (demo_request ''POST'' (Single ''gone'') []) (demo_externals (Inr JNull) False)))
   \<and> is_error_envelope missing_session
   \<and> on_endpoint demo_bridge (demo_request ''DELETE'' Absent []) (demo_externals (Inr JNull) False)
   \<and> method_of (demo_request ''DELETE'' Absent []) = ''DELETE''
   \<and> active initial (header_sessionId (mcp_session_id (demo_request ''DELETE'' Absent [])))
       = (None :: (string, string) transport_session option)
   \<and> request_handler demo_bridge initial (demo_request ''DELETE'' Absent [])
        (demo_externals (Inr JNull) False)
      = ([Send invalid_session], initial)"
  using error_bodies[of missing_session demo_bridge initial "demo_request ''POST'' (Single ''gone'') []"
      "demo_externals (Inr JNull) False"]
    error_bodies[of missing_session demo_bridge initial "demo_request ''DELETE'' Absent []"
      "demo_externals (Inr JNull) False"]
  by (simp add: handler_defs demo_defs on_endpoint_def initial_def is_error_envelope_missing_session)

subsection \<open>C9: the health response does not depend on the backend or the sessions\<close>

text \<open>
  C9: a request whose path is \<^verbatim>\<open>/health\<close> is answered with status 200 and the body
  \<^verbatim>\<open>{"ok":true,"endpoint":<endpoint url>}\<close>, in every state of the registry and after
  every run of the bridge, asynchronous backend errors included; the registry is left
  as it was.
\<close>

theorem health_independent:
  assumes "has_url req" "url_pathname ext = Inr ''/health''"
  shows "request_handler b st req ext = ([Send (health (endpoint b))], st)
    \<and> request_handler b (run v b initial evs) req ext
        = ([Send (health (endpoint b))], run v b initial evs)
    \<and> statusCode (health (endpoint b)) = 200
    \<and> payload (health (endpoint b))
        = Json (JObject [(''ok'', JBool True), (''endpoint'', JString (endpoint b))])"
  by (simp add: handler_health[OF assms] health_def)

theorem health_independent_witness:
  "has_url (demo_request ''GET'' Absent [] \<lparr> url := Some ''/health'' \<rparr>)
   \<and> url_pathname (demo_externals (Inr JNull) False \<lparr> url_pathname := Inr ''/health'' \<rparr>)
        = Inr ''/health''
   \<and> sessions (demo_run Plain [UpstreamError ''malformed output'', demo_initialize,
         SessionInitialized 0 first_id])
        = [(first_id, \<lparr> server = createSessionServer demo_client 0, transport = 0 \<rparr>)]
   \<and> fst (request_handler demo_bridge
        (demo_run Plain [UpstreamError ''malformed output'', demo_initialize,
           SessionInitialized 0 first_id])
        (demo_request ''GET'' Absent [] \<lparr> url := Some ''/health'' \<rparr>)
        (demo_externals (Inr JNull) False \<lparr> url_pathname := Inr ''/health'' \<rparr>))
      = [Send (health ''http://127.0.0.1:49321/mcp'')]"
  using health_independent[of "demo_request ''GET'' Absent [] \<lparr> url := Some ''/health'' \<rparr>"
      "demo_externals (Inr JNull) False \<lparr> url_pathname := Inr ''/health'' \<rparr>"
      demo_bridge _ Plain "[UpstreamError ''malformed output'', demo_initialize,
           SessionInitialized 0 first_id]"]
  by (simp add: run_defs handler_defs demo_defs)

subsection \<open>C10: the health path is matched before the method and the body\<close>

text \<open>
  C10: whatever the method, the session header and the body of a request to
  \<^verbatim>\<open>/health\<close> (a body that is not JSON included), and whatever the library calls would
  do, the answer is the health response with status 200; nothing is handed to a
  transport.
\<close>

theorem health_any_method:
  assumes "url req = Some u" "u \<noteq> []" "url_pathname ext = Inr ''/health''"
  shows "request_handler b st
           (req \<lparr> http_method := m, mcp_session_id := h, chunks := cs \<rparr>)
           (ext \<lparr> json_parse := parsed, is_initialize := init, connect_rejects := cr,
                  handle_rejects := hr \<rparr>)
         = ([Send (health (endpoint b))], st)
    \<and> statusCode (health (endpoint b)) = 200
    \<and> HandleRequest t body \<notin> set (fst (request_handler b st
           (req \<lparr> http_method := m, mcp_session_id := h, chunks := cs \<rparr>)
           (ext \<lparr> json_parse := parsed, is_initialize := init, connect_rejects := cr,
                  handle_rejects := hr \<rparr>)))"
proof -
  have "has_url (req \<lparr> http_method := m, mcp_session_id := h, chunks := cs \<rparr>)"
    using assms by (simp add: has_url_def)
  moreover have "url_pathname (ext \<lparr> json_parse := parsed, is_initialize := init,
      connect_rejects := cr, handle_rejects := hr \<rparr>) = Inr ''/health''"
    using assms by simp
  ultimately show ?thesis by (simp add: handler_health health_def)
qed

theorem health_any_method_witness:
  "url (demo_request ''GET'' Absent [] \<lparr> url := Some ''/health'' \<rparr>) = Some ''/health''
   \<and> url_pathname (demo_externals (Inr JNull) False \<lparr> url_pathname := Inr ''/health'' \<rparr>)
        = Inr ''/health''
   \<and> request_handler demo_bridge initial
        \<lparr> url = Some ''/health'', http_method = Some ''PUT'', mcp_session_id = Single first_id,
          chunks = [''{''] \<rparr>
        \<lparr> url_pathname = Inr ''/health'',
          json_parse = Inl (ErrorObject ''Unexpected end of JSON input''),
          is_initialize = False, connect_rejects = None, handle_rejects = None \<rparr>
      = ([Send (health ''http://127.0.0.1:49321/mcp'')], initial)"
  using health_any_method[where req = "demo_request ''GET'' Absent [] \<lparr> url := Some ''/health'' \<rparr>"
      and u = "''/health''"
      and ext = "demo_externals (Inr JNull) False \<lparr> url_pathname := Inr ''/health'' \<rparr>"
      and b = demo_bridge and st = initial and m = "Some ''PUT''" and h = "Single first_id"
      and cs = "[''{'']" and parsed = "Inl (ErrorObject ''Unexpected end of JSON input'')"
      and init = False and cr = None and hr = None]
  by (simp add: demo_defs)

section \<open>Properties of runs\<close>

lemma run_append: "run v b st (xs @ ys) = run v b (run v b st xs) ys"
  by (induction xs arbitrary: st) simp_all

lemma issued_append: "issued (xs @ ys) = issued xs @ issued ys"
  by (induction xs rule: issued.induct) simp_all

lemma initialized_append: "initialized (xs @ ys) = initialized xs @ initialized ys"
  by (induction xs rule: initialized.induct) simp_all

lemma issued_Cons: "set (issued (ev # evs)) = set (issued [ev]) \<union> set (issued evs)"
  using issued_append[of "[ev]" evs] by simp

lemma initialized_Cons:
  "set (initialized (ev # evs)) = set (initialized [ev]) \<union> set (initialized evs)"
  using initialized_append[of "[ev]" evs] by simp

text \<open>What a request changes in the state.\<close>

lemma route_state:
  "fst (snd (route b st req ext)) = st
   \<or> fst (snd (route b st req ext))
       = st \<lparr> mcpServer := (mcpServer st)(created st \<mapsto> createSessionServer (upstream b) (created st)),
              created := Suc (created st) \<rparr>
   \<or> fst (snd (route b st req ext))
       = st \<lparr> mcpServer := (mcpServer st)(created st \<mapsto> createSessionServer (upstream b) (created st)),
              created := Suc (created st),
              connected := (connected st)(created st := True) \<rparr>"
  by (auto simp: route_def forward_def initialize_session_def Let_def
      split: option.splits sum.splits)

lemma handler_state:
  "snd (request_handler b st req ext) = st
   \<or> snd (request_handler b st req ext)
       = st \<lparr> mcpServer := (mcpServer st)(created st \<mapsto> createSessionServer (upstream b) (created st)),
              created := Suc (created st) \<rparr>
   \<or> snd (request_handler b st req ext)
       = st \<lparr> mcpServer := (mcpServer st)(created st \<mapsto> createSessionServer (upstream b) (created st)),
              created := Suc (created st),
              connected := (connected st)(created st := True) \<rparr>"
  using route_state[of b st req ext]
  by (cases "route b st req ext") (auto simp: request_handler_def split: option.splits)

lemma handler_sessions [simp]:
  "sessions (snd (request_handler b st req ext)) = sessions st"
  using handler_state[of b st req ext] by auto

lemma handler_sessionId [simp]:
  "sessionId (snd (request_handler b st req ext)) = sessionId st"
  using handler_state[of b st req ext] by auto

lemma handler_connected:
  "connected st k \<Longrightarrow> connected (snd (request_handler b st req ext)) k"
  using handler_state[of b st req ext] by auto


lemma handler_servers:
  assumes "\<forall>k srv. mcpServer st k = Some srv \<longrightarrow> srv = createSessionServer (upstream b) k"
  shows "\<forall>k srv. mcpServer (snd (request_handler b st req ext)) k = Some srv \<longrightarrow>
           srv = createSessionServer (upstream b) k"
  using handler_state[of b st req ext] assms by (auto split: if_splits)

lemma onclose_sessionId [simp]: "sessionId (snd (onclose v k st)) = sessionId st"
  by (auto simp: onclose_def split: option.splits variant.splits)

lemma onclose_mcpServer [simp]: "mcpServer (snd (onclose v k st)) = mcpServer st"
  by (auto simp: onclose_def split: option.splits variant.splits)

lemma onclose_connected [simp]: "connected (snd (onclose v k st)) = connected st"
  by (auto simp: onclose_def split: option.splits variant.splits)

lemma onclose_created [simp]: "created (snd (onclose v k st)) = created st"
  by (auto simp: onclose_def split: option.splits variant.splits)

lemma onclose_map_of:
  "map_of (sessions (snd (onclose v k st))) =
     (case sessionId st k of
        None \<Rightarrow> map_of (sessions st)
      | Some x \<Rightarrow> if x = [] then map_of (sessions st) else (map_of (sessions st))(x := None))"
  by (auto simp: onclose_def delete_conv' split: option.splits variant.splits)

lemma onclose_distinct:
  "distinct (map fst (sessions st)) \<Longrightarrow> distinct (map fst (sessions (snd (onclose v k st))))"
  by (auto simp: onclose_def distinct_delete split: option.splits variant.splits)

text \<open>The steps of the callbacks, field by field.\<close>

lemma closed_fields:
  "sessionId (snd (step v b st (TransportClosed k))) = sessionId st"
  "mcpServer (snd (step v b st (TransportClosed k))) = mcpServer st"
  "connected (snd (step v b st (TransportClosed k))) = (connected st)(k := False)"
  "created (snd (step v b st (TransportClosed k))) = created st"
  "sessions (snd (step v b st (TransportClosed k))) = sessions (snd (onclose v k st))"
  by (simp_all add: split_def Let_def)

lemma initialized_fields:
  "mcpServer (snd (step v b st (SessionInitialized k sid))) = mcpServer st"
  "connected (snd (step v b st (SessionInitialized k sid))) = connected st"
  "created (snd (step v b st (SessionInitialized k sid))) = created st"
  "sessionId (snd (step v b st (SessionInitialized k sid)))
     = (if connected st k then (sessionId st)(k \<mapsto> sid) else sessionId st)"
  "map_of (sessions (snd (step v b st (SessionInitialized k sid))))
     = (case mcpServer st k of
          None \<Rightarrow> map_of (sessions st)
        | Some srv \<Rightarrow>
            if connected st k
            then (map_of (sessions st))(sid \<mapsto> \<lparr> server = srv, transport = k \<rparr>)
            else map_of (sessions st))"
  by (auto simp: onsessioninitialized_def update_conv' split: option.splits)

lemma initialized_distinct:
  "distinct (map fst (sessions st)) \<Longrightarrow>
     distinct (map fst (sessions (snd (step v b st (SessionInitialized k sid)))))"
  by (auto simp: onsessioninitialized_def distinct_update split: option.splits)

lemmas step_fields = initialized_fields closed_fields






lemma step_distinct:
  "distinct (map fst (sessions st)) \<Longrightarrow> distinct (map fst (sessions (snd (step v b st ev))))"
  by (cases ev)
    (simp_all del: step.simps(2,3) add: closed_fields initialized_distinct onclose_distinct)

lemma run_distinct:
  "distinct (map fst (sessions st)) \<Longrightarrow> distinct (map fst (sessions (run v b st evs)))"
  by (induction evs arbitrary: st) (simp_all add: step_distinct del: step.simps)





lemma step_keeps_sessionId:
  assumes "sessionId st k = Some sid" "k \<notin> set (initialized [ev])"
  shows "sessionId (snd (step v b st ev)) k = Some sid"
  using assms by (cases ev) (auto simp del: step.simps(2,3) simp add: step_fields)

lemma run_keeps_sessionId:
  assumes "sessionId st k = Some sid" "k \<notin> set (initialized evs)"
  shows "sessionId (run v b st evs) k = Some sid"
  using assms
proof (induction evs arbitrary: st)
  case Nil
  then show ?case by simp
next
  case (Cons ev evs)
  then show ?case
    using step_keeps_sessionId[of st k sid ev v b] initialized_Cons[of ev evs] by auto
qed

lemma step_absent:
  assumes "map_of (sessions st) sid = None" "sid \<notin> set (issued [ev])"
  shows "map_of (sessions (snd (step v b st ev))) sid = None"
  using assms
  by (cases ev)
    (auto simp del: step.simps(2,3) simp add: step_fields onclose_map_of split: option.splits)

lemma run_absent:
  assumes "map_of (sessions st) sid = None" "sid \<notin> set (issued evs)"
  shows "map_of (sessions (run v b st evs)) sid = None"
  using assms
proof (induction evs arbitrary: st)
  case Nil
  then show ?case by simp
next
  case (Cons ev evs)
  then show ?case
    using step_absent[of st sid ev v b] issued_Cons[of ev evs] by auto
qed

lemma closed_absent:
  assumes "distinct (issued evs)" "distinct (initialized evs)" "sid \<noteq> []"
    "evs = pre @ SessionInitialized k sid # post" "TransportClosed k \<in> set post"
  shows "map_of (sessions (run v b initial evs)) sid = None"
proof -
  obtain mid rest where P: "post = mid @ TransportClosed k # rest"
    using split_list[OF assms(5)] by blast
  have I: "sid \<notin> set (issued pre)" "sid \<notin> set (issued mid)" "sid \<notin> set (issued rest)"
    using assms(1,4) P by (auto simp: issued_append)
  have K: "k \<notin> set (initialized mid)"
    using assms(2,4) P by (auto simp: initialized_append)
  let ?st0 = "run v b initial pre"
  let ?st1 = "snd (step v b ?st0 (SessionInitialized k sid))"
  let ?st2 = "run v b ?st1 mid"
  let ?st3 = "snd (step v b ?st2 (TransportClosed k))"
  have R: "run v b initial evs = run v b ?st3 rest"
    using assms(4) P by (simp add: run_append del: step.simps)
  have A0: "map_of (sessions ?st0) sid = None"
    using run_absent[of initial sid pre v b] I(1) by (simp add: initial_def)
  have "map_of (sessions ?st3) sid = None"
  proof (cases "connected ?st0 k")
    case True
    then have "sessionId ?st1 k = Some sid" by (simp add: initialized_fields del: step.simps)
    then have "sessionId ?st2 k = Some sid" using run_keeps_sessionId[OF _ K] by blast
    then show ?thesis using assms(3) by (simp add: closed_fields onclose_map_of del: step.simps)
  next
    case False
    then have "?st1 = ?st0" by simp
    then have "map_of (sessions ?st2) sid = None" using run_absent[OF A0 I(2)] by simp
    then show ?thesis
      by (simp add: closed_fields onclose_map_of del: step.simps split: option.splits)
  qed
  from run_absent[OF this I(3)] R show ?thesis by simp
qed


subsection \<open>C1: a POST of an active session reaches the server made for that session\<close>





subsection \<open>C3: requests bearing the id of a closed session\<close>

lemma no_forward:
  assumes "active st (header_sessionId (mcp_session_id req)) = None"
    "\<not> falsy (header_sessionId (mcp_session_id req))"
  shows "HandleRequest t x \<notin> set (fst (request_handler b st req ext))
         \<and> snd (request_handler b st req ext) = st"
  using assms
  by (auto simp: request_handler_def route_def Let_def split: option.splits sum.splits if_splits)

text \<open>
  C3, as the specification states it: every later POST, GET or DELETE bearing the id of
  a closed session receives HTTP 400. The body of a POST is parsed before the session
  is looked at: a POST bearing the id of a closed session with the body \<^verbatim>\<open>{\<close> is
  answered with HTTP 500.
\<close>

theorem closed_session_counterexample:
  "sessions (demo_run Plain [demo_initialize, SessionInitialized 0 first_id])
     = [(first_id, \<lparr> server = createSessionServer demo_client 0, transport = 0 \<rparr>)]
   \<and> sessions (demo_run Plain [demo_initialize, SessionInitialized 0 first_id, TransportClosed 0]) = []
   \<and> request_handler demo_bridge
        (demo_run Plain [demo_initialize, SessionInitialized 0 first_id, TransportClosed 0])
        (demo_request ''POST'' (Single first_id) [''{''])
        (demo_externals (Inl (ErrorObject ''Unexpected end of JSON input'')) False)
      = ([Send (internal_error ''Unexpected end of JSON input'')],
         demo_run Plain [demo_initialize, SessionInitialized 0 first_id, TransportClosed 0])
   \<and> statusCode (internal_error ''Unexpected end of JSON input'') = 500"
  by (simp add: run_defs handler_defs demo_defs internal_error_def)

text \<open>
  C3, amended: in every run in which the generator returns no id twice and each
  transport takes its id once, after the transport of a session has closed a request to
  the endpoint path bearing that session's id (a non-empty string) is never handed to a
  transport and leaves the registry as it is; a GET or DELETE, and a POST whose body is empty or parses as
  JSON, receives HTTP 400 (the POST with the envelope of code -32000), and a POST whose
  body is not JSON receives HTTP 500.
\<close>

theorem closed_session_rejected:
  assumes "distinct (issued evs)" "distinct (initialized evs)" "sid \<noteq> []"
    "evs = pre @ SessionInitialized k sid # mid @ TransportClosed k # post"
    "on_endpoint b req ext" "header_sessionId (mcp_session_id req) = Some sid"
  shows "(method_of req = ''POST'' \<and> parseJsonBody (chunks req) (json_parse ext) = Inr body \<longrightarrow>
           request_handler b (run v b initial evs) req ext
             = ([Send missing_session], run v b initial evs))
    \<and> (method_of req = ''GET'' \<or> method_of req = ''DELETE'' \<longrightarrow>
           request_handler b (run v b initial evs) req ext
             = ([Send invalid_session], run v b initial evs))
    \<and> (method_of req = ''POST'' \<and> parseJsonBody (chunks req) (json_parse ext) = Inl e \<longrightarrow>
           request_handler b (run v b initial evs) req ext
             = ([Send (internal_error (message_of e))], run v b initial evs))
    \<and> statusCode missing_session = 400 \<and> statusCode invalid_session = 400
    \<and> HandleRequest t x \<notin> set (fst (request_handler b (run v b initial evs) req ext))"
proof -
  let ?st = "run v b initial evs"
  have "TransportClosed k \<in> set (mid @ TransportClosed k # post)" by simp
  from closed_absent[OF assms(1,2,3,4) this]
  have A: "active ?st (header_sessionId (mcp_session_id req)) = None"
    using assms(3,6) by (simp add: active_def)
  have F: "\<not> falsy (header_sessionId (mcp_session_id req))"
    using assms(3,6) by (simp add: falsy_def)
  have P: "method_of req = ''POST'' \<and> parseJsonBody (chunks req) (json_parse ext) = Inr body \<longrightarrow>
           request_handler b ?st req ext = ([Send missing_session], ?st)"
    using route_post_rejected[OF assms(5) _ _ A] F by (auto simp: request_handler_def)
  have G: "method_of req = ''GET'' \<or> method_of req = ''DELETE'' \<longrightarrow>
           request_handler b ?st req ext = ([Send invalid_session], ?st)"
    using route_get_delete_rejected[OF assms(5) _ A] by (auto simp: request_handler_def)
  have U: "method_of req = ''POST'' \<and> parseJsonBody (chunks req) (json_parse ext) = Inl e \<longrightarrow>
           request_handler b ?st req ext = ([Send (internal_error (message_of e))], ?st)"
    using route_post_unparsable[OF assms(5)] by (auto simp: request_handler_def)
  show ?thesis using P G U no_forward[OF A F]
    by (simp add: missing_session_def invalid_session_def)
qed


theorem closed_session_rejected_witness:
  "distinct (issued [demo_initialize, SessionInitialized 0 first_id, TransportClosed 0])
   \<and> distinct (initialized [demo_initialize, SessionInitialized 0 first_id, TransportClosed 0])
   \<and> on_endpoint demo_bridge (demo_request ''delete'' (Single first_id) [])
        (demo_externals (Inr JNull) False)
   \<and> header_sessionId (mcp_session_id (demo_request ''delete'' (Single first_id) [])) = Some first_id
   \<and> method_of (demo_request ''delete'' (Single first_id) []) = ''DELETE''
   \<and> request_handler demo_bridge
        (run Saving demo_bridge initial
           [demo_initialize, SessionInitialized 0 first_id, TransportClosed 0])
        (demo_request ''delete'' (Single first_id) []) (demo_externals (Inr JNull) False)
      = ([Send invalid_session],
         run Saving demo_bridge initial
           [demo_initialize, SessionInitialized 0 first_id, TransportClosed 0])"
  using closed_session_rejected[where evs = "[demo_initialize, SessionInitialized 0 first_id, TransportClosed 0]"
      and pre = "[demo_initialize]" and k = 0 and sid = first_id and mid = "[]" and post = "[]"
      and b = demo_bridge and req = "demo_request ''delete'' (Single first_id) []"
      and ext = "demo_externals (Inr JNull) False" and v = Saving]
  by (simp add: demo_initialize_def demo_defs on_endpoint_def handler_defs)

section \<open>Properties of shutdown\<close>

lemma coherent_initial: "coherent b initial"
  by (simp add: coherent_def initial_def)

lemma coherentD:
  "coherent b st \<Longrightarrow> map_of (sessions st) sid = Some s \<Longrightarrow>
     sid \<noteq> [] \<and> sessionId st (transport s) = Some sid \<and> connected st (transport s)
     \<and> server s = createSessionServer (upstream b) (transport s)"
  by (simp add: coherent_def)

lemma coherent_servers:
  "coherent b st \<Longrightarrow> mcpServer st k = Some srv \<Longrightarrow> srv = createSessionServer (upstream b) k"
  by (simp add: coherent_def)

lemma coherent_distinct: "coherent b st \<Longrightarrow> distinct (map fst (sessions st))"
  by (simp add: coherent_def)

lemma coherentI:
  assumes "distinct (map fst (sessions st))"
    "\<And>sid s. map_of (sessions st) sid = Some s \<Longrightarrow>
       sid \<noteq> [] \<and> sessionId st (transport s) = Some sid \<and> connected st (transport s)
       \<and> server s = createSessionServer (upstream b) (transport s)"
    "\<And>k srv. mcpServer st k = Some srv \<Longrightarrow> srv = createSessionServer (upstream b) k"
  shows "coherent b st"
  unfolding coherent_def using assms by blast

lemma coherent_request:
  assumes "coherent b st"
  shows "coherent b (snd (request_handler b st req ext))"
proof (rule coherentI)
  show "distinct (map fst (sessions (snd (request_handler b st req ext))))"
    using coherent_distinct[OF assms] by simp
next
  fix sid s
  assume "map_of (sessions (snd (request_handler b st req ext))) sid = Some s"
  then have M: "map_of (sessions st) sid = Some s" by simp
  note H = coherentD[OF assms M]
  show "sid \<noteq> [] \<and> sessionId (snd (request_handler b st req ext)) (transport s) = Some sid
     \<and> connected (snd (request_handler b st req ext)) (transport s)
     \<and> server s = createSessionServer (upstream b) (transport s)"
    using H handler_connected[of st "transport s" b req ext] by simp
next
  fix k srv
  assume A: "mcpServer (snd (request_handler b st req ext)) k = Some srv"
  have "\<forall>k srv. mcpServer st k = Some srv \<longrightarrow> srv = createSessionServer (upstream b) k"
    using coherent_servers[OF assms] by blast
  from handler_servers[OF this, of req ext] A
  show "srv = createSessionServer (upstream b) k" by blast
qed



lemma coherent_initialized:
  assumes "coherent b st" "sid \<noteq> []" "sessionId st k = None"
  shows "coherent b (snd (step v b st (SessionInitialized k sid)))"
proof (rule coherentI)
  show "distinct (map fst (sessions (snd (step v b st (SessionInitialized k sid)))))"
    using initialized_distinct[OF coherent_distinct[OF assms(1)]] .
next
  fix i s
  assume A: "map_of (sessions (snd (step v b st (SessionInitialized k sid)))) i = Some s"
  let ?st' = "snd (step v b st (SessionInitialized k sid))"
  have C: "connected ?st' = connected st"
    by (simp add: initialized_fields del: step.simps)
  show "i \<noteq> [] \<and> sessionId ?st' (transport s) = Some i \<and> connected ?st' (transport s)
     \<and> server s = createSessionServer (upstream b) (transport s)"
  proof (cases "map_of (sessions st) i = Some s")
    case True
    note H = coherentD[OF assms(1) True]
    then have "transport s \<noteq> k" using assms(3) by auto
    then have "sessionId ?st' (transport s) = sessionId st (transport s)"
      by (simp add: initialized_fields del: step.simps)
    then show ?thesis using H C by simp
  next
    case False
    then obtain srv where N: "mcpServer st k = Some srv" "connected st k" "i = sid"
      "s = \<lparr> server = srv, transport = k \<rparr>"
      using A by (auto simp del: step.simps simp add: initialized_fields
          split: option.splits if_splits)
    have "srv = createSessionServer (upstream b) k" using coherent_servers[OF assms(1) N(1)] .
    then show ?thesis using N assms(2) C
      by (simp add: initialized_fields del: step.simps)
  qed
next
  fix j srv
  assume "mcpServer (snd (step v b st (SessionInitialized k sid))) j = Some srv"
  then have "mcpServer st j = Some srv" by (simp add: initialized_fields del: step.simps)
  then show "srv = createSessionServer (upstream b) j" using coherent_servers[OF assms(1)] by blast
qed

lemma coherent_closed:
  assumes "coherent b st"
  shows "coherent b (snd (step v b st (TransportClosed k)))"
proof (rule coherentI)
  show "distinct (map fst (sessions (snd (step v b st (TransportClosed k)))))"
    using onclose_distinct[OF coherent_distinct[OF assms]]
    by (simp add: closed_fields del: step.simps)
next
  fix i s
  let ?st' = "snd (step v b st (TransportClosed k))"
  assume "map_of (sessions ?st') i = Some s"
  then have A: "map_of (sessions (snd (onclose v k st))) i = Some s"
    by (simp add: closed_fields del: step.simps)
  then have M: "map_of (sessions st) i = Some s"
    by (auto simp: onclose_map_of split: option.splits if_splits)
  note H = coherentD[OF assms M]
  have "transport s \<noteq> k"
  proof
    assume "transport s = k"
    then have "sessionId st k = Some i" "i \<noteq> []" using H by auto
    then have "map_of (sessions (snd (onclose v k st))) i = None"
      by (simp add: onclose_map_of)
    then show False using A by simp
  qed
  then show "i \<noteq> [] \<and> sessionId ?st' (transport s) = Some i \<and> connected ?st' (transport s)
     \<and> server s = createSessionServer (upstream b) (transport s)"
    using H by (simp add: closed_fields del: step.simps)
next
  fix j srv
  assume "mcpServer (snd (step v b st (TransportClosed k))) j = Some srv"
  then have "mcpServer st j = Some srv" by (simp add: closed_fields del: step.simps)
  then show "srv = createSessionServer (upstream b) j" using coherent_servers[OF assms] by blast
qed

lemma step_coherent:
  assumes "coherent b st" "[] \<notin> set (issued [ev])"
    "\<forall>k \<in> set (initialized [ev]). sessionId st k = None"
  shows "coherent b (snd (step v b st ev))"
proof (cases ev)
  case (Request req ext)
  then show ?thesis using coherent_request[OF assms(1)] by simp
next
  case (SessionInitialized k sid)
  have "sid \<noteq> []" "sessionId st k = None" using assms(2,3) SessionInitialized by auto
  from coherent_initialized[OF assms(1) this] show ?thesis unfolding SessionInitialized .
next
  case (TransportClosed k)
  show ?thesis unfolding TransportClosed by (rule coherent_closed[OF assms(1)])
next
  case (UpstreamError m)
  then show ?thesis using assms(1) by simp
qed

lemma step_uninitialized:
  assumes "sessionId st k = None" "k \<notin> set (initialized [ev])"
  shows "sessionId (snd (step v b st ev)) k = None"
  using assms by (cases ev) (auto simp del: step.simps(2,3) simp add: step_fields)

lemma run_coherent:
  assumes "coherent b st" "distinct (initialized evs)" "[] \<notin> set (issued evs)"
    "\<forall>k \<in> set (initialized evs). sessionId st k = None"
  shows "coherent b (run v b st evs)"
  using assms
proof (induction evs arbitrary: st)
  case Nil
  then show ?case by simp
next
  case (Cons ev evs)
  have P: "[] \<notin> set (issued [ev])" "[] \<notin> set (issued evs)"
    using Cons.prems(3) issued_Cons[of ev evs] by auto
  have Q: "\<forall>k \<in> set (initialized [ev]). sessionId st k = None"
    using Cons.prems(4) initialized_Cons[of ev evs] by auto
  have C: "coherent b (snd (step v b st ev))"
    by (rule step_coherent[OF Cons.prems(1) P(1) Q])
  have I: "initialized (ev # evs) = initialized [ev] @ initialized evs"
    using initialized_append[of "[ev]" evs] by simp
  have D: "distinct (initialized evs)"
    using Cons.prems(2) unfolding I by simp
  have S: "\<forall>k \<in> set (initialized evs). sessionId (snd (step v b st ev)) k = None"
  proof
    fix k assume K: "k \<in> set (initialized evs)"
    then have "k \<notin> set (initialized [ev])" using Cons.prems(2) unfolding I by auto
    moreover have "sessionId st k = None"
      using Cons.prems(4) K initialized_Cons[of ev evs] by auto
    ultimately show "sessionId (snd (step v b st ev)) k = None"
      using step_uninitialized by blast
  qed
  show ?case using Cons.IH[OF C D P(2) S] by (simp del: step.simps)
qed

lemma reachable_coherent:
  assumes "distinct (initialized evs)" "[] \<notin> set (issued evs)"
  shows "coherent b (run v b initial evs)"
proof -
  have "\<forall>k \<in> set (initialized evs). sessionId (initial :: ('a, 'b) bridge_state) k = None"
    by (simp add: initial_def)
  from run_coherent[OF coherent_initial assms this] show ?thesis .
qed

lemma distinct_map_comp: "distinct (map (\<lambda>x. g (f x)) xs) \<Longrightarrow> distinct (map f xs)"
  by (induction xs) auto

lemma coherent_entries:
  assumes "coherent b st"
  shows "\<forall>e \<in> set (sessions st). connected st (transport (snd e))
           \<and> ref (server (snd e)) = transport (snd e)"
    and "distinct (map (\<lambda>e. transport (snd e)) (sessions st))"
proof -
  have D: "distinct (map fst (sessions st))" by (rule coherent_distinct[OF assms])
  have E: "sessionId st (transport (snd e)) = Some (fst e) \<and> connected st (transport (snd e))
           \<and> server (snd e) = createSessionServer (upstream b) (transport (snd e))"
    if "e \<in> set (sessions st)" for e
  proof -
    have "(fst e, snd e) \<in> set (sessions st)" using that by simp
    from coherentD[OF assms map_of_is_SomeI[OF D this]] show ?thesis by simp
  qed
  show "\<forall>e \<in> set (sessions st). connected st (transport (snd e))
           \<and> ref (server (snd e)) = transport (snd e)"
  proof
    fix e assume "e \<in> set (sessions st)"
    from E[OF this] have "connected st (transport (snd e))"
      "server (snd e) = createSessionServer (upstream b) (transport (snd e))" by simp_all
    then show "connected st (transport (snd e)) \<and> ref (server (snd e)) = transport (snd e)"
      by (simp add: createSessionServer_def)
  qed
  have "map (\<lambda>e. the (sessionId st (transport (snd e)))) (sessions st)
          = map fst (sessions st)"
    by (rule map_cong[OF refl]) (simp add: E)
  then have "distinct (map (\<lambda>e. the (sessionId st (transport (snd e)))) (sessions st))"
    using D by (simp only:)
  then show "distinct (map (\<lambda>e. transport (snd e)) (sessions st))"
    by (rule distinct_map_comp)
qed

lemma then_do_caught: "then_do (catch_undefined x) y = (fst x @ fst y, snd y)"
  by (simp add: then_do_def catch_undefined_def)

lemma calls_effects: "fst (calls rejects es) = es"
  by (simp add: calls_def)

lemma call_effects: "fst (call rejects e) = [e]"
  by (simp add: call_def)

lemma close_sessions_Plain_Cons:
  "fst (close_sessions Plain rejects st ((sid, s) # rest))
     = (server_close st (ref (server s))
          @ fst (fst (close_sessions Plain rejects (disconnect (ref (server s)) st) rest)),
        snd (fst (close_sessions Plain rejects (disconnect (ref (server s)) st) rest)))"
  by (simp add: split_def Let_def then_do_caught calls_effects)

lemma close_sessions_Saving_Cons:
  "fst (close_sessions Saving rejects st ((sid, s) # rest))
     = (CloseSessionTransport (transport s)
          # server_close (disconnect (transport s) st) (ref (server s))
          @ fst (fst (close_sessions Saving rejects
                   (disconnect (ref (server s)) (disconnect (transport s) st)) rest)),
        snd (fst (close_sessions Saving rejects
                   (disconnect (ref (server s)) (disconnect (transport s) st)) rest)))"
  by (simp add: split_def Let_def then_do_caught calls_effects call_effects)

lemma close_sessions_connected:
  assumes "\<forall>e \<in> set ss. connected st (transport (snd e))
             \<and> ref (server (snd e)) = transport (snd e)"
    "distinct (map (\<lambda>e. transport (snd e)) ss)"
  shows "fst (close_sessions v rejects st ss)
           = (concat (map (\<lambda>e. session_closes v (snd e)) ss), None)"
  using assms
proof (induction ss arbitrary: st)
  case Nil
  then show ?case by simp
next
  case (Cons e ss)
  obtain sid s where e: "e = (sid, s)" by (cases e)
  have H: "connected st (transport s)" "ref (server s) = transport s"
    using Cons.prems(1) e by auto
  have R: "\<forall>e \<in> set ss. connected (disconnect (transport s) st) (transport (snd e))
             \<and> ref (server (snd e)) = transport (snd e)"
  proof
    fix e' assume M: "e' \<in> set ss"
    then have "transport (snd e') \<in> set (map (\<lambda>e. transport (snd e)) ss)" by simp
    moreover have "transport s \<notin> set (map (\<lambda>e. transport (snd e)) ss)"
      using Cons.prems(2) unfolding e by simp
    ultimately have "transport (snd e') \<noteq> transport s" by metis
    then show "connected (disconnect (transport s) st) (transport (snd e'))
             \<and> ref (server (snd e')) = transport (snd e')"
      using Cons.prems(1) M by (simp add: disconnect_def)
  qed
  have D: "distinct (map (\<lambda>e. transport (snd e)) ss)" using Cons.prems(2) by simp
  have DD: "disconnect (transport s) (disconnect (transport s) st) = disconnect (transport s) st"
    by (simp add: disconnect_def)
  note IH = Cons.IH[OF R D]
  show ?case
  proof (cases v)
    case Plain
    have "server_close st (ref (server s)) = session_closes Plain s"
      using H by (simp add: server_close_def session_closes_def)
    then show ?thesis
      using IH unfolding e Plain close_sessions_Plain_Cons H(2) by simp
  next
    case Saving
    have "CloseSessionTransport (transport s)
            # server_close (disconnect (transport s) st) (ref (server s))
          = session_closes Saving s"
      using H by (simp add: server_close_def session_closes_def disconnect_def)
    then show ?thesis
      using IH unfolding e Saving close_sessions_Saving_Cons H(2) DD by simp
  qed
qed

lemma cleanup_eq:
  assumes "fst (close_sessions v rejects st (sessions st)) = (closing, None)"
  shows "fst (cleanup v rejects st)
           = (closing @ [ClearSessions, CloseListener, CloseUpstream, CloseUpstreamTransport],
              None)"
    and "sessions (snd (cleanup v rejects st)) = []"
  using assms
  by (simp_all add: cleanup_def then_do_def catch_undefined_def call_def Let_def split_def)

subsection \<open>C6: the order of shutdown\<close>

text \<open>
  C6: in both variants, in the state reached by any run (each transport taking one id,
  never the empty one), and whichever closing calls reject, \<^verbatim>\<open>cleanup\<close> closes for
  every registered session its protocol server and its transport (in \<^verbatim>\<open>xcode-mcp.ts\<close>
  the transport is closed by the server's own \<^verbatim>\<open>close\<close>, in the saving variant by
  \<^verbatim>\<open>cleanup\<close> before it closes the server), then clears the registry, closes the
  listener, and only then closes the backend client and after it the stdio transport;
  it never rejects, and the signal handler exits after it.
\<close>

theorem shutdown_order:
  assumes "distinct (initialized evs)" "[] \<notin> set (issued evs)"
  shows "fst (cleanup v rejects (run v b initial evs))
           = (concat (map (\<lambda>e. session_closes v (snd e)) (sessions (run v b initial evs)))
                @ [ClearSessions, CloseListener, CloseUpstream, CloseUpstreamTransport], None)
    \<and> sessions (snd (cleanup v rejects (run v b initial evs))) = []
    \<and> (\<forall>e \<in> set (sessions (run v b initial evs)).
          CloseSessionServer (ref (server (snd e)))
            \<in> set (concat (map (\<lambda>e. session_closes v (snd e)) (sessions (run v b initial evs))))
          \<and> CloseSessionTransport (transport (snd e))
            \<in> set (concat (map (\<lambda>e. session_closes v (snd e)) (sessions (run v b initial evs)))))
    \<and> CloseUpstream
         \<notin> set (concat (map (\<lambda>e. session_closes v (snd e)) (sessions (run v b initial evs))))
    \<and> CloseUpstreamTransport
         \<notin> set (concat (map (\<lambda>e. session_closes v (snd e)) (sessions (run v b initial evs))))
    \<and> fst (on_signal v rejects (run v b initial evs))
         = fst (fst (cleanup v rejects (run v b initial evs))) @ [ProcessExit 0]"
proof -
  let ?st = "run v b initial evs"
  let ?closing = "concat (map (\<lambda>e. session_closes v (snd e)) (sessions ?st))"
  have C: "coherent b ?st" by (rule reachable_coherent[OF assms])
  have S: "fst (close_sessions v rejects ?st (sessions ?st)) = (?closing, None)"
    by (rule close_sessions_connected[OF coherent_entries[OF C]])
  note E = cleanup_eq[OF S]
  have A: "\<forall>e \<in> set (sessions ?st).
          CloseSessionServer (ref (server (snd e))) \<in> set ?closing
          \<and> CloseSessionTransport (transport (snd e)) \<in> set ?closing"
  proof
    fix e assume M: "e \<in> set (sessions ?st)"
    have "CloseSessionServer (ref (server (snd e))) \<in> set (session_closes v (snd e))"
      "CloseSessionTransport (transport (snd e)) \<in> set (session_closes v (snd e))"
      by (cases v; simp add: session_closes_def)+
    then show "CloseSessionServer (ref (server (snd e))) \<in> set ?closing
          \<and> CloseSessionTransport (transport (snd e)) \<in> set ?closing"
      using M by auto
  qed
  have B: "CloseUpstream \<notin> set ?closing" "CloseUpstreamTransport \<notin> set ?closing"
    by (cases v; auto simp: session_closes_def)+
  have G: "fst (on_signal v rejects ?st) = fst (fst (cleanup v rejects ?st)) @ [ProcessExit 0]"
    by (simp add: on_signal_def catch_undefined_def split: prod.splits)
  show ?thesis using E A B G by simp
qed

theorem shutdown_order_witness:
  "distinct (initialized [demo_initialize, SessionInitialized 0 first_id, demo_initialize,
       SessionInitialized 1 second_id])
   \<and> [] \<notin> set (issued [demo_initialize, SessionInitialized 0 first_id, demo_initialize,
       SessionInitialized 1 second_id])
   \<and> sessions (run Plain demo_bridge initial [demo_initialize, SessionInitialized 0 first_id,
        demo_initialize, SessionInitialized 1 second_id])
     = [(first_id, \<lparr> server = createSessionServer demo_client 0, transport = 0 \<rparr>),
        (second_id, \<lparr> server = createSessionServer demo_client 1, transport = 1 \<rparr>)]
   \<and> fst (cleanup Plain (\<lambda>e. Some (ErrorObject ''already closed''))
          (run Plain demo_bridge initial [demo_initialize, SessionInitialized 0 first_id,
             demo_initialize, SessionInitialized 1 second_id]))
     = ([CloseSessionServer 0, CloseSessionTransport 0, CloseSessionServer 1,
         CloseSessionTransport 1, ClearSessions, CloseListener, CloseUpstream,
         CloseUpstreamTransport], None)
   \<and> fst (cleanup Saving (\<lambda>e. Some (ErrorObject ''already closed''))
          (run Saving demo_bridge initial [demo_initialize, SessionInitialized 0 first_id,
             demo_initialize, SessionInitialized 1 second_id]))
     = ([CloseSessionTransport 0, CloseSessionServer 0, CloseSessionTransport 1,
         CloseSessionServer 1, ClearSessions, CloseListener, CloseUpstream,
         CloseUpstreamTransport], None)"
  using shutdown_order[where evs = "[demo_initialize, SessionInitialized 0 first_id,
          demo_initialize, SessionInitialized 1 second_id]"
      and v = Plain and b = demo_bridge
      and rejects = "\<lambda>e. Some (ErrorObject ''already closed'')"]
    shutdown_order[where evs = "[demo_initialize, SessionInitialized 0 first_id,
          demo_initialize, SessionInitialized 1 second_id]"
      and v = Saving and b = demo_bridge
      and rejects = "\<lambda>e. Some (ErrorObject ''already closed'')"]
  by (simp add: run_defs handler_defs demo_defs session_closes_def)

end
